theory Spec2Isabelle
  imports Complex_Main "HOL-Library.AList"
begin

section \<open>Python values\<close>

text \<open>
  The client of \<^verbatim>\<open>src/open_octopus/client.py\<close> handles parsed JSON throughout: response
  bodies, the token, the account number. A parsed JSON value is \<^verbatim>\<open>None\<close>, a bool, a
  number, a string, a list or a dict with string keys. A number is the rational it
  denotes: Python's \<^verbatim>\<open>int\<close> is exact, and a \<^verbatim>\<open>float\<close> is a rational too. Products
  and quotients are taken exactly; sums of floats round as doubles do (see
  \<open>float_add\<close> below), for the daily totals depend on it. Infinities and NaN are
  outside this model. A dict is an association list read with \<open>map_of\<close>.
\<close>

datatype json =
    JNull
  | JBool bool
  | JNum rat
  | JStr string
  | JArr "json list"
  | JObj "(string \<times> json) list"

text \<open>The exceptions that the modelled code raises or meets.\<close>

datatype error =
    AuthenticationError json
  | APIError json
  | ConfigurationError string
  | HTTPError
  | HTTPStatusError
  | JSONDecodeError
  | KeyError
  | IndexError
  | TypeError
  | AttributeError
  | ValueError

text \<open>\<^verbatim>\<open>except httpx.HTTPError\<close> catches the base class and \<^verbatim>\<open>HTTPStatusError\<close>, its subclass.\<close>

fun is_http_error :: "error \<Rightarrow> bool" where
  "is_http_error HTTPError = True"
| "is_http_error HTTPStatusError = True"
| "is_http_error _ = False"

definition and_then :: "error + 'a \<Rightarrow> ('a \<Rightarrow> error + 'b) \<Rightarrow> error + 'b" where
  "and_then r f = (case r of Inl e \<Rightarrow> Inl e | Inr x \<Rightarrow> f x)"

text \<open>Truth value of a Python object, as \<^verbatim>\<open>if x\<close>, \<^verbatim>\<open>not x\<close> and \<^verbatim>\<open>x or y\<close> test it.\<close>

fun truthy :: "json \<Rightarrow> bool" where
  "truthy JNull = False"
| "truthy (JBool b) = b"
| "truthy (JNum n) = (n \<noteq> 0)"
| "truthy (JStr s) = (s \<noteq> [])"
| "truthy (JArr xs) = (xs \<noteq> [])"
| "truthy (JObj kvs) = (kvs \<noteq> [])"

definition py_or :: "json \<Rightarrow> json \<Rightarrow> json" where
  "py_or x y = (if truthy x then x else y)"

text \<open>\<^verbatim>\<open>v[k]\<close> for a string key \<open>k\<close>: only a dict accepts it.\<close>

fun py_item :: "json \<Rightarrow> string \<Rightarrow> error + json" where
  "py_item (JObj kvs) k = (case map_of kvs k of None \<Rightarrow> Inl KeyError | Some v \<Rightarrow> Inr v)"
| "py_item _ k = Inl TypeError"

text \<open>\<^verbatim>\<open>v[0]\<close>. The keys of a parsed JSON object are strings, so \<open>0\<close> is never among them.\<close>

fun py_index0 :: "json \<Rightarrow> error + json" where
  "py_index0 (JArr xs) = (case xs of [] \<Rightarrow> Inl IndexError | x # _ \<Rightarrow> Inr x)"
| "py_index0 (JStr s) = (case s of [] \<Rightarrow> Inl IndexError | ch # _ \<Rightarrow> Inr (JStr [ch]))"
| "py_index0 (JObj kvs) = Inl KeyError"
| "py_index0 _ = Inl TypeError"

text \<open>\<^verbatim>\<open>v.get(k, d)\<close>: a method of dicts only.\<close>

fun py_get :: "json \<Rightarrow> string \<Rightarrow> json \<Rightarrow> error + json" where
  "py_get (JObj kvs) k d = Inr (case map_of kvs k of None \<Rightarrow> d | Some v \<Rightarrow> v)"
| "py_get _ k d = Inl AttributeError"

fun starts_with :: "string \<Rightarrow> string \<Rightarrow> bool" where
  "starts_with [] s = True"
| "starts_with (a # k) [] = False"
| "starts_with (a # k) (b # s) = (a = b \<and> starts_with k s)"

fun substring :: "string \<Rightarrow> string \<Rightarrow> bool" where
  "substring k [] = (k = [])"
| "substring k (b # s) = (starts_with k (b # s) \<or> substring k s)"

text \<open>\<^verbatim>\<open>k in v\<close> for a string \<open>k\<close>: key of a dict, element of a list, substring of a string.\<close>

fun py_contains :: "string \<Rightarrow> json \<Rightarrow> error + bool" where
  "py_contains k (JObj kvs) = Inr (map_of kvs k \<noteq> None)"
| "py_contains k (JArr xs) = Inr (List.member xs (JStr k))"
| "py_contains k (JStr s) = Inr (substring k s)"
| "py_contains k _ = Inl TypeError"

section \<open>Time and the remote service\<close>

text \<open>
  \<^verbatim>\<open>datetime.now()\<close> returns a naive datetime, modelled as the microseconds of the wall
  clock; the range of \<^verbatim>\<open>datetime\<close> (years 1 to 9999) is not modelled. A
  \<^verbatim>\<open>timedelta\<close> is a number of microseconds.
\<close>

definition timedelta_minutes :: "int \<Rightarrow> int" where
  "timedelta_minutes m = m * 60 * 1000000"

text \<open>
  A request as the client hands it to \<^verbatim>\<open>httpx\<close>: \<open>Post url authorization body\<close> for
  \<^verbatim>\<open>http.post(url, headers={"Authorization": t}, json=body)\<close> (no header: \<open>None\<close>) and
  \<open>Get url params user\<close> for \<^verbatim>\<open>http.get(url, params=params, auth=(user, ""))\<close>.
\<close>

datatype request =
    Post string "json option" json
  | Get string "(string \<times> json) list" json

fun request_url :: "request \<Rightarrow> string" where
  "request_url (Post u h b) = u"
| "request_url (Get u p a) = u"

text \<open>
  What a request comes to: the call raises \<^verbatim>\<open>httpx.HTTPError\<close> (no connection, a
  timeout), or a response arrives, of which the client looks at two things: whether
  \<^verbatim>\<open>raise_for_status()\<close> passes, and the body as \<^verbatim>\<open>resp.json()\<close> parses it
  (\<open>None\<close>: not JSON).
\<close>

datatype outcome =
    TransportError
  | Response bool "json option"

text \<open>
  The world outside the client: the successive readings of the clock and the remote
  service, which answers the \<open>k\<close>-th request as it likes. \<open>reads\<close> counts the
  readings taken, \<open>sent\<close> lists the requests made, oldest first.
\<close>

record world =
  clock :: "nat \<Rightarrow> int"
  reads :: nat
  remote :: "nat \<Rightarrow> request \<Rightarrow> outcome"
  sent :: "request list"

definition now :: "world \<Rightarrow> int \<times> world" where
  "now w = (clock w (reads w), w\<lparr>reads := Suc (reads w)\<rparr>)"

definition send :: "world \<Rightarrow> request \<Rightarrow> outcome \<times> world" where
  "send w req = (remote w (length (sent w)) req, w\<lparr>sent := sent w @ [req]\<rparr>)"

text \<open>The lines \<^verbatim>\<open>resp.raise_for_status()\<close> and \<^verbatim>\<open>data = resp.json()\<close> after a request.\<close>

fun receive :: "outcome \<Rightarrow> error + json" where
  "receive TransportError = Inl HTTPError"
| "receive (Response ok body) =
     (if \<not> ok then Inl HTTPStatusError
      else case body of None \<Rightarrow> Inl JSONDecodeError | Some data \<Rightarrow> Inr data)"

section \<open>The client\<close>

definition GRAPHQL_URLS :: "(string \<times> string) list" where
  "GRAPHQL_URLS =
     [(''uk'', ''https://api.octopus.energy/v1/graphql/''),
      (''japan'', ''https://api.oejp-kraken.energy/v1/graphql/'')]"

definition REST_API_URL :: string where
  "REST_API_URL = ''https://api.octopus.energy/v1''"

text \<open>\<^verbatim>\<open>GRAPHQL_URLS["japan"]\<close>, a key of the literal above.\<close>

definition GRAPHQL_URL :: string where
  "GRAPHQL_URL = (case map_of GRAPHQL_URLS ''japan'' of Some u \<Rightarrow> u | None \<Rightarrow> [])"

text \<open>
  The fields of \<^verbatim>\<open>OctopusClient\<close>, without the leading underscore of the private ones
  (\<open>token\<close> is \<^verbatim>\<open>_token\<close>, \<open>graphql_url\<close> is \<^verbatim>\<open>_graphql_url\<close>). \<^verbatim>\<open>None\<close> is \<open>JNull\<close>; the
  HTTP handle is present or not.
\<close>

record client =
  region :: string
  email :: json
  password :: json
  api_key :: json
  account :: json
  mpan :: json
  meter_serial :: json
  gas_mprn :: json
  gas_meter_serial :: json
  token :: json
  refresh_token :: json
  token_expires :: "int option"
  http :: "unit option"
  graphql_url :: string

text \<open>\<^verbatim>\<open>__init__\<close>, with the arguments in the order of the signature.\<close>

definition OctopusClient ::
  "json \<Rightarrow> json \<Rightarrow> json \<Rightarrow> json \<Rightarrow> string \<Rightarrow> json \<Rightarrow> json \<Rightarrow> json \<Rightarrow> json \<Rightarrow> client" where
  "OctopusClient email' password' api_key' account' region' mpan' meter_serial' gas_mprn'
       gas_meter_serial' =
     \<lparr>region = region', email = email', password = password', api_key = api_key',
      account = account', mpan = mpan', meter_serial = meter_serial', gas_mprn = gas_mprn',
      gas_meter_serial = gas_meter_serial',
      token = JNull, refresh_token = JNull, token_expires = None, http = None,
      graphql_url = (case map_of GRAPHQL_URLS region' of Some u \<Rightarrow> u | None \<Rightarrow> GRAPHQL_URL)\<rparr>"

definition is_japan :: "client \<Rightarrow> bool" where
  "is_japan c = (region c = ''japan'')"

definition aenter :: "client \<Rightarrow> client" where
  "aenter c = c\<lparr>http := Some ()\<rparr>"

definition aexit :: "client \<Rightarrow> client" where
  "aexit c = (if http c \<noteq> None then c\<lparr>http := None\<rparr> else c)"

definition get_http :: "client \<Rightarrow> client" where
  "get_http c = (if http c = None then c\<lparr>http := Some ()\<rparr> else c)"

text \<open>The query text of line 139, character for character (310 characters).\<close>

definition obtainKrakenToken_mutation :: string where
  "obtainKrakenToken_mutation = ''\<newline>'' @
     ''                        mutation obtainKrakenToken($input: ObtainJSONWebTokenInput!) {\<newline>'' @
     ''                            obtainKrakenToken(input: $input) {\<newline>'' @
     ''                                token\<newline>'' @
     ''                                refreshToken\<newline>'' @
     ''                            }\<newline>'' @
     ''                        }\<newline>'' @
     ''                    ''"

text \<open>The query text of line 158, character for character (248 characters).\<close>

definition ObtainToken_mutation :: string where
  "ObtainToken_mutation = ''\<newline>'' @
     ''                        mutation ObtainToken($key: String!) {\<newline>'' @
     ''                            obtainKrakenToken(input: {APIKey: $key}) {\<newline>'' @
     ''                                token\<newline>'' @
     ''                            }\<newline>'' @
     ''                        }\<newline>'' @
     ''                    ''"

text \<open>The query text of line 212, character for character (220 characters).\<close>

definition accountViewer_query :: string where
  "accountViewer_query = ''\<newline>'' @
     ''                query accountViewer {\<newline>'' @
     ''                    viewer {\<newline>'' @
     ''                        accounts {\<newline>'' @
     ''                            number\<newline>'' @
     ''                        }\<newline>'' @
     ''                    }\<newline>'' @
     ''                }\<newline>'' @
     ''                ''"

text \<open>The query text of line 240, character for character (320 characters).\<close>

definition GetAccount_query :: string where
  "GetAccount_query = ''\<newline>'' @
     ''            query GetAccount($account: String!) {\<newline>'' @
     ''                account(accountNumber: $account) {\<newline>'' @
     ''                    balance\<newline>'' @
     ''                    billingName\<newline>'' @
     ''                    status\<newline>'' @
     ''                    properties {\<newline>'' @
     ''                        address\<newline>'' @
     ''                    }\<newline>'' @
     ''                }\<newline>'' @
     ''            }\<newline>'' @
     ''            ''"

text \<open>The query text of line 314, character for character (636 characters).\<close>

definition halfHourlyReadings_query :: string where
  "halfHourlyReadings_query = ''\<newline>'' @
     ''            query halfHourlyReadings($accountNumber: String!, $fromDatetime: DateTime, $toDatetime: DateTime) {\<newline>'' @
     ''                account(accountNumber: $accountNumber) {\<newline>'' @
     ''                    properties {\<newline>'' @
     ''                        electricitySupplyPoints {\<newline>'' @
     ''                            status\<newline>'' @
     ''                            halfHourlyReadings(fromDatetime: $fromDatetime, toDatetime: $toDatetime) {\<newline>'' @
     ''                                startAt\<newline>'' @
     ''                                value\<newline>'' @
     ''                                costEstimate\<newline>'' @
     ''                            }\<newline>'' @
     ''                        }\<newline>'' @
     ''                    }\<newline>'' @
     ''                }\<newline>'' @
     ''            }\<newline>'' @
     ''            ''"

text \<open>The query text of line 503, character for character (496 characters).\<close>

definition GetGasTariff_query :: string where
  "GetGasTariff_query = ''\<newline>'' @
     ''            query GetGasTariff($account: String!) {\<newline>'' @
     ''                account(accountNumber: $account) {\<newline>'' @
     ''                    gasAgreements(active: true) {\<newline>'' @
     ''                        tariff {\<newline>'' @
     ''                            ... on StandardTariff {\<newline>'' @
     ''                                displayName\<newline>'' @
     ''                                productCode\<newline>'' @
     ''                                standingCharge\<newline>'' @
     ''                            }\<newline>'' @
     ''                        }\<newline>'' @
     ''                    }\<newline>'' @
     ''                }\<newline>'' @
     ''            }\<newline>'' @
     ''            ''"

text \<open>The query text of line 566, character for character (720 characters).\<close>

definition GetTariff_query :: string where
  "GetTariff_query = ''\<newline>'' @
     ''            query GetTariff($account: String!) {\<newline>'' @
     ''                account(accountNumber: $account) {\<newline>'' @
     ''                    electricityAgreements(active: true) {\<newline>'' @
     ''                        tariff {\<newline>'' @
     ''                            ... on HalfHourlyTariff {\<newline>'' @
     ''                                displayName\<newline>'' @
     ''                                productCode\<newline>'' @
     ''                                standingCharge\<newline>'' @
     ''                            }\<newline>'' @
     ''                            ... on StandardTariff {\<newline>'' @
     ''                                displayName\<newline>'' @
     ''                                productCode\<newline>'' @
     ''                                standingCharge\<newline>'' @
     ''                            }\<newline>'' @
     ''                        }\<newline>'' @
     ''                    }\<newline>'' @
     ''                }\<newline>'' @
     ''            }\<newline>'' @
     ''            ''"

subsection \<open>\<^verbatim>\<open>_get_token\<close>\<close>

text \<open>
  Line 120: the cached token is used when it is truthy, an expiry is recorded and the
  clock, read only then (\<^verbatim>\<open>and\<close> short-circuits), is before the expiry.
\<close>

definition token_is_fresh :: "client \<Rightarrow> world \<Rightarrow> bool \<times> world" where
  "token_is_fresh c w =
     (if truthy (token c) then
        (case token_expires c of
           None \<Rightarrow> (False, w)
         | Some expires \<Rightarrow> (case now w of (t, w') \<Rightarrow> (t < expires, w')))
      else (False, w))"

text \<open>Lines 125 to 167: the request of the region's authentication flow, or the refusal.\<close>

definition token_request :: "client \<Rightarrow> error + request" where
  "token_request c =
     (if is_japan c then
        (if truthy (refresh_token c) then
           Inr (Post (graphql_url c) None
             (JObj [(''query'', JStr obtainKrakenToken_mutation),
                    (''variables'', JObj [(''input'',
                       JObj [(''refreshToken'', refresh_token c)])])]))
         else if truthy (email c) \<and> truthy (password c) then
           Inr (Post (graphql_url c) None
             (JObj [(''query'', JStr obtainKrakenToken_mutation),
                    (''variables'', JObj [(''input'',
                       JObj [(''email'', email c), (''password'', password c)])])]))
         else Inl (AuthenticationError (JStr ''Japan region requires email and password'')))
      else
        (if \<not> truthy (api_key c) then
           Inl (AuthenticationError (JStr ''UK region requires API key''))
         else
           Inr (Post (graphql_url c) None
             (JObj [(''query'', JStr ObtainToken_mutation),
                    (''variables'', JObj [(''key'', api_key c)])]))))"

text \<open>\<^verbatim>\<open>data["errors"][0]["message"]\<close>, of lines 173 and 196.\<close>

definition first_error_message :: "json \<Rightarrow> error + json" where
  "first_error_message data =
     and_then (and_then (py_item data ''errors'') py_index0) (\<lambda>e. py_item e ''message'')"

text \<open>Lines 175 to 180: the token of the response is stored, with its expiry.\<close>

definition store_token :: "client \<Rightarrow> world \<Rightarrow> json \<Rightarrow> (error + json) \<times> client \<times> world" where
  "store_token c w data =
     (case and_then (py_item data ''data'') (\<lambda>d. py_item d ''obtainKrakenToken'') of
        Inl e \<Rightarrow> (Inl e, c, w)
      | Inr token_data \<Rightarrow>
          (case py_item token_data ''token'' of
             Inl e \<Rightarrow> (Inl e, c, w)
           | Inr tok \<Rightarrow>
               (case py_contains ''refreshToken'' token_data of
                  Inl e \<Rightarrow> (Inl e, c\<lparr>token := tok\<rparr>, w)
                | Inr has \<Rightarrow>
                    (case (if has then py_item token_data ''refreshToken''
                           else Inr (refresh_token c)) of
                       Inl e \<Rightarrow> (Inl e, c\<lparr>token := tok\<rparr>, w)
                     | Inr rt \<Rightarrow>
                         (case now w of (t, w') \<Rightarrow>
                            (Inr tok,
                             c\<lparr>token := tok, refresh_token := rt,
                               token_expires := Some (t + timedelta_minutes 55)\<rparr>,
                             w'))))))"

definition get_token :: "client \<Rightarrow> world \<Rightarrow> (error + json) \<times> client \<times> world" where
  "get_token c w =
     (case token_is_fresh c w of (fresh, w1) \<Rightarrow>
        if fresh then (Inr (token c), c, w1)
        else
          (case token_request (get_http c) of
             Inl e \<Rightarrow> (Inl e, get_http c, w1)
           | Inr req \<Rightarrow>
               (case send w1 req of (out, w2) \<Rightarrow>
                  (case receive out of
                     Inl e \<Rightarrow> (Inl e, get_http c, w2)
                   | Inr data \<Rightarrow>
                       (case py_contains ''errors'' data of
                          Inl e \<Rightarrow> (Inl e, get_http c, w2)
                        | Inr has_errors \<Rightarrow>
                            if has_errors then
                              (case first_error_message data of
                                 Inl e \<Rightarrow> (Inl e, get_http c, w2)
                               | Inr m \<Rightarrow> (Inl (AuthenticationError m), get_http c, w2))
                            else store_token (get_http c) w2 data)))))"

subsection \<open>\<^verbatim>\<open>_graphql\<close>\<close>

text \<open>Lines 187 to 191: the request of a query; \<^verbatim>\<open>variables or {}\<close>.\<close>

definition graphql_request :: "client \<Rightarrow> json \<Rightarrow> string \<Rightarrow> json \<Rightarrow> request" where
  "graphql_request c tok query variables =
     Post (graphql_url c) (Some tok)
       (JObj [(''query'', JStr query), (''variables'', py_or variables (JObj []))])"

definition graphql ::
  "client \<Rightarrow> world \<Rightarrow> string \<Rightarrow> json \<Rightarrow> (error + json) \<times> client \<times> world" where
  "graphql c w query variables =
     (case get_token c w of
        (Inl e, c1, w1) \<Rightarrow> (Inl e, c1, w1)
      | (Inr tok, c1, w1) \<Rightarrow>
          (case send w1 (graphql_request (get_http c1) tok query variables) of (out, w2) \<Rightarrow>
             (case receive out of
                Inl e \<Rightarrow> (Inl e, get_http c1, w2)
              | Inr data \<Rightarrow>
                  (case py_contains ''errors'' data of
                     Inl e \<Rightarrow> (Inl e, get_http c1, w2)
                   | Inr has_errors \<Rightarrow>
                       if has_errors then
                         (case first_error_message data of
                            Inl e \<Rightarrow> (Inl e, get_http c1, w2)
                          | Inr m \<Rightarrow> (Inl (APIError m), get_http c1, w2))
                       else
                         (case py_item data ''data'' of
                            Inl e \<Rightarrow> (Inl e, get_http c1, w2)
                          | Inr d \<Rightarrow> (Inr d, get_http c1, w2))))))"

section \<open>Dates, and what is left to Python's library\<close>

text \<open>
  A \<^verbatim>\<open>datetime\<close> parsed from a response is naive or carries an offset from UTC: the
  microseconds of its wall clock, and for an aware one the offset. Aware datetimes are
  ordered by their instant, naive ones by their wall clock, and Python refuses to
  compare one with the other.
\<close>

datatype datetime =
    Naive int
  | Aware int int

fun is_aware :: "datetime \<Rightarrow> bool" where
  "is_aware (Naive t) = False"
| "is_aware (Aware t off) = True"

fun instant :: "datetime \<Rightarrow> int" where
  "instant (Naive t) = t"
| "instant (Aware t off) = t - off"

fun dt_add :: "datetime \<Rightarrow> int \<Rightarrow> datetime" where
  "dt_add (Naive t) d = Naive (t + d)"
| "dt_add (Aware t off) d = Aware (t + d) off"

text \<open>
  The functions of Python's library that the client calls and this theory does not
  define: \<^verbatim>\<open>datetime.fromisoformat\<close> and \<^verbatim>\<open>float\<close> of a string (\<open>None\<close>: they raise
  \<^verbatim>\<open>ValueError\<close>), \<^verbatim>\<open>isoformat()\<close>, \<^verbatim>\<open>strftime("%Y-%m-%d")\<close>, and the text an
  f-string puts for a value. Every statement below holds whatever they are.
\<close>

record pylib =
  fromisoformat :: "string \<Rightarrow> datetime option"
  float_of_str :: "string \<Rightarrow> rat option"
  isoformat :: "datetime \<Rightarrow> string"
  strftime_ymd :: "datetime \<Rightarrow> string"
  str_of :: "json \<Rightarrow> string"

text \<open>\<^verbatim>\<open>for x in v\<close>: the elements of a list, the characters of a string, the keys of a dict.\<close>

fun py_iter :: "json \<Rightarrow> error + json list" where
  "py_iter (JArr xs) = Inr xs"
| "py_iter (JStr s) = Inr (map (\<lambda>ch. JStr [ch]) s)"
| "py_iter (JObj kvs) = Inr (map (\<lambda>kv. JStr (fst kv)) kvs)"
| "py_iter _ = Inl TypeError"

text \<open>\<^verbatim>\<open>v.replace("Z", "+00:00")\<close>: a method of strings only.\<close>

fun py_replace_Z :: "json \<Rightarrow> error + string" where
  "py_replace_Z (JStr s) = Inr (concat (map (\<lambda>ch. if ch = CHR ''Z'' then ''+00:00'' else [ch]) s))"
| "py_replace_Z _ = Inl AttributeError"

definition py_fromisoformat :: "pylib \<Rightarrow> string \<Rightarrow> error + datetime" where
  "py_fromisoformat L s = (case fromisoformat L s of None \<Rightarrow> Inl ValueError | Some d \<Rightarrow> Inr d)"

text \<open>The three steps of \<^verbatim>\<open>datetime.fromisoformat(r[k].replace("Z", "+00:00"))\<close>.\<close>

definition parse_time :: "pylib \<Rightarrow> json \<Rightarrow> string \<Rightarrow> error + datetime" where
  "parse_time L r k = and_then (and_then (py_item r k) py_replace_Z) (py_fromisoformat L)"

text \<open>The number a bool or a number stands for in arithmetic (\<^verbatim>\<open>True\<close> is 1).\<close>

fun num_val :: "json \<Rightarrow> rat" where
  "num_val (JNum x) = x"
| "num_val (JBool b) = (if b then 1 else 0)"
| "num_val _ = 0"

fun is_number :: "json \<Rightarrow> bool" where
  "is_number (JNum x) = True"
| "is_number (JBool b) = True"
| "is_number _ = False"

text \<open>\<^verbatim>\<open>float(v)\<close>.\<close>

fun py_float :: "pylib \<Rightarrow> json \<Rightarrow> error + rat" where
  "py_float L (JNum x) = Inr x"
| "py_float L (JBool b) = Inr (num_val (JBool b))"
| "py_float L (JStr s) = (case float_of_str L s of None \<Rightarrow> Inl ValueError | Some x \<Rightarrow> Inr x)"
| "py_float L _ = Inl TypeError"

text \<open>\<^verbatim>\<open>v < n\<close>, \<^verbatim>\<open>v * n\<close> and \<^verbatim>\<open>v / n\<close> for a number \<open>n\<close> (no \<open>n\<close> below is zero).\<close>

definition py_less :: "json \<Rightarrow> rat \<Rightarrow> error + bool" where
  "py_less v n = (if is_number v then Inr (num_val v < n) else Inl TypeError)"

definition py_mul :: "json \<Rightarrow> rat \<Rightarrow> error + json" where
  "py_mul v n = (if is_number v then Inr (JNum (num_val v * n)) else Inl TypeError)"

definition py_truediv :: "json \<Rightarrow> rat \<Rightarrow> error + json" where
  "py_truediv v n = (if is_number v then Inr (JNum (num_val v / n)) else Inl TypeError)"

subsection \<open>The addition of floats\<close>

text \<open>
  The daily totals are sums of many floats, and a sum of floats depends on how it is
  grouped: \<^verbatim>\<open>+\<close> on two floats is the double nearest to the exact sum, ties to the even
  significand. A double is a multiple of its unit in the last place, which is
  \<open>2 ^ (e - 52)\<close> for a magnitude in \<open>[2 ^ e, 2 ^ (e + 1))\<close> and never below
  \<open>2 ^ -1074\<close>. \<open>log2_floor\<close> finds \<open>e\<close> by halving and doubling; 2200 steps reach
  every double. Outside this model: a sum beyond the largest double, which Python makes
  \<^verbatim>\<open>inf\<close>, and the sums of Python's \<^verbatim>\<open>int\<close> beyond \<open>2 ^ 53\<close>, which are exact.
\<close>

fun log2_floor :: "nat \<Rightarrow> rat \<Rightarrow> int" where
  "log2_floor 0 x = 0"
| "log2_floor (Suc n) x =
     (if x < 1 then log2_floor n (2 * x) - 1
      else if 2 \<le> x then log2_floor n (x / 2) + 1
      else 0)"

definition pow2 :: "int \<Rightarrow> rat" where
  "pow2 e = (if 0 \<le> e then 2 ^ nat e else 1 / 2 ^ nat (- e))"

definition round_half_even :: "rat \<Rightarrow> int" where
  "round_half_even x =
     (if x - of_int \<lfloor>x\<rfloor> < 1 / 2 then \<lfloor>x\<rfloor>
      else if 1 / 2 < x - of_int \<lfloor>x\<rfloor> then \<lfloor>x\<rfloor> + 1
      else if even \<lfloor>x\<rfloor> then \<lfloor>x\<rfloor>
      else \<lfloor>x\<rfloor> + 1)"

definition ulp :: "rat \<Rightarrow> rat" where
  "ulp x = pow2 (max (log2_floor 2200 \<bar>x\<bar> - 52) (- 1074))"

definition round_double :: "rat \<Rightarrow> rat" where
  "round_double x = (if x = 0 then 0 else of_int (round_half_even (x / ulp x)) * ulp x)"

definition float_add :: "rat \<Rightarrow> rat \<Rightarrow> rat" where
  "float_add a b = round_double (a + b)"


text \<open>\<^verbatim>\<open>a + v\<close> for a number \<open>a\<close>.\<close>

definition py_add :: "rat \<Rightarrow> json \<Rightarrow> error + rat" where
  "py_add a v = (if is_number v then Inr (float_add a (num_val v)) else Inl TypeError)"

text \<open>\<^verbatim>\<open>v[:4]\<close>; a dict refuses a slice.\<close>

fun py_slice4 :: "json \<Rightarrow> error + json" where
  "py_slice4 (JArr xs) = Inr (JArr (take 4 xs))"
| "py_slice4 (JStr s) = Inr (JStr (take 4 s))"
| "py_slice4 _ = Inl TypeError"

text \<open>A loop that appends what each element yields, and stops at the first exception.\<close>

fun collect :: "('a \<Rightarrow> error + 'b list) \<Rightarrow> 'a list \<Rightarrow> error + 'b list" where
  "collect f [] = Inr []"
| "collect f (x # xs) =
     (case f x of
        Inl e \<Rightarrow> Inl e
      | Inr ys \<Rightarrow> (case collect f xs of Inl e \<Rightarrow> Inl e | Inr zs \<Rightarrow> Inr (ys @ zs)))"

section \<open>The display records\<close>

text \<open>
  The classes of \<^verbatim>\<open>models.py\<close>, which is not among the sources: each record has the
  fields that \<^verbatim>\<open>client.py\<close> passes to the constructor, under the initial of the class
  (a field name is global in a theory). A field holds what the client puts there, often
  a value of the response as it came. \<open>c_cost_estimate\<close> is \<open>None\<close> where the client
  passes no \<^verbatim>\<open>cost_estimate\<close> and the default of the class applies.
\<close>

record Account =
  a_number :: json
  a_balance :: json
  a_name :: json
  a_status :: json
  a_address :: json

record Consumption =
  c_start :: datetime
  c_end :: datetime
  c_kwh :: json
  c_cost_estimate :: "json option"

record GasConsumption =
  g_start :: datetime
  g_end :: datetime
  g_kwh :: json
  g_m3 :: json

record GasTariff =
  gt_name :: json
  gt_product_code :: json
  gt_standing_charge :: json
  gt_unit_rate :: json

record Tariff =
  t_name :: json
  t_product_code :: json
  t_standing_charge :: json
  t_rates :: "(string \<times> json) list"
  t_off_peak_rate :: json
  t_peak_rate :: json
  t_off_peak_start :: string
  t_off_peak_end :: string

section \<open>Account and billing\<close>

subsection \<open>\<^verbatim>\<open>_ensure_account\<close>\<close>

text \<open>Lines 222 to 226: the number of the first account of the viewer.\<close>

definition first_account :: "json \<Rightarrow> error + json" where
  "first_account data =
     and_then (and_then (py_get data ''viewer'' (JObj [])) (\<lambda>v. py_get v ''accounts'' (JArr [])))
       (\<lambda>accounts.
          if truthy accounts then and_then (py_index0 accounts) (\<lambda>a. py_item a ''number'')
          else Inl (ConfigurationError ''No account found for this user''))"

definition ensure_account :: "client \<Rightarrow> world \<Rightarrow> (error + json) \<times> client \<times> world" where
  "ensure_account c w =
     (if truthy (account c) then (Inr (account c), c, w)
      else if is_japan c then
        (case graphql c w accountViewer_query JNull of
           (Inl e, c1, w1) \<Rightarrow> (Inl e, c1, w1)
         | (Inr data, c1, w1) \<Rightarrow>
             (case first_account data of
                Inl e \<Rightarrow> (Inl e, c1, w1)
              | Inr n \<Rightarrow> (Inr n, c1\<lparr>account := n\<rparr>, w1)))
      else (Inl (ConfigurationError ''Account number required for UK region''), c, w))"

subsection \<open>\<^verbatim>\<open>get_account\<close>\<close>

text \<open>Lines 254 to 268: the record made of the response.\<close>

definition account_record :: "client \<Rightarrow> json \<Rightarrow> json \<Rightarrow> error + Account" where
  "account_record c account_number data =
     and_then (py_item data ''account'') (\<lambda>acc.
     and_then (if is_japan c then py_item acc ''balance''
               else and_then (py_item acc ''balance'') (\<lambda>b. py_truediv b 100)) (\<lambda>balance.
     and_then (py_item acc ''billingName'') (\<lambda>billing_name.
     and_then (py_item acc ''status'') (\<lambda>status.
     and_then (py_get acc ''properties'' JNull) (\<lambda>properties.
     and_then (if truthy properties
               then and_then (and_then (py_item acc ''properties'') py_index0)
                      (\<lambda>p. py_item p ''address'')
               else Inr (JStr '''')) (\<lambda>address.
     Inr \<lparr>a_number = account_number, a_balance = balance,
          a_name = py_or billing_name (JStr ''''), a_status = py_or status (JStr ''''),
          a_address = address\<rparr>))))))"

definition get_account :: "client \<Rightarrow> world \<Rightarrow> (error + Account) \<times> client \<times> world" where
  "get_account c w =
     (case ensure_account c w of
        (Inl e, c1, w1) \<Rightarrow> (Inl e, c1, w1)
      | (Inr account_number, c1, w1) \<Rightarrow>
          (case graphql c1 w1 GetAccount_query (JObj [(''account'', account_number)]) of
             (Inl e, c2, w2) \<Rightarrow> (Inl e, c2, w2)
           | (Inr data, c2, w2) \<Rightarrow> (account_record c2 account_number data, c2, w2)))"

section \<open>Consumption\<close>

subsection \<open>\<^verbatim>\<open>_get_consumption_japan\<close>\<close>

text \<open>Lines 343 to 351, the body of the \<^verbatim>\<open>try\<close>, in the order Python evaluates it.\<close>

definition reading_japan :: "pylib \<Rightarrow> json \<Rightarrow> error + Consumption" where
  "reading_japan L r =
     and_then (parse_time L r ''startAt'') (\<lambda>start_at.
     and_then (and_then (py_item r ''value'') (py_float L)) (\<lambda>kwh.
     and_then (and_then (py_get r ''costEstimate'' JNull) (\<lambda>ce. py_float L (py_or ce (JNum 0))))
       (\<lambda>cost.
     Inr \<lparr>c_start = start_at, c_end = dt_add start_at (timedelta_minutes 30),
          c_kwh = JNum kwh, c_cost_estimate = Some (JNum cost)\<rparr>)))"

text \<open>
  Line 352: \<^verbatim>\<open>except (ValueError, KeyError, TypeError): continue\<close>;
  \<^verbatim>\<open>JSONDecodeError\<close> is a subclass of \<^verbatim>\<open>ValueError\<close>.
\<close>

definition try_reading :: "pylib \<Rightarrow> json \<Rightarrow> error + Consumption list" where
  "try_reading L r =
     (case reading_japan L r of
        Inr c \<Rightarrow> Inr [c]
      | Inl e \<Rightarrow>
          if e = ValueError \<or> e = JSONDecodeError \<or> e = KeyError \<or> e = TypeError then Inr []
          else Inl e)"

text \<open>Lines 337 to 353: the three nested loops.\<close>

definition readings_japan :: "pylib \<Rightarrow> json \<Rightarrow> error + Consumption list" where
  "readings_japan L data =
     and_then (and_then (and_then (py_get data ''account'' (JObj []))
                 (\<lambda>a. py_get a ''properties'' (JArr []))) py_iter)
       (collect (\<lambda>prop.
          and_then (and_then (py_get prop ''electricitySupplyPoints'' (JArr [])) py_iter)
            (collect (\<lambda>supply_point.
               and_then (and_then (py_get supply_point ''halfHourlyReadings'' (JArr [])) py_iter)
                 (collect (try_reading L))))))"

text \<open>
  Line 355: \<^verbatim>\<open>sorted(readings, key=lambda c: c.start)\<close>, a stable sort, which fails when
  it has to compare a naive with an aware datetime.
\<close>

definition sorted_by_start :: "Consumption list \<Rightarrow> error + Consumption list" where
  "sorted_by_start cs =
     (if list_ex (\<lambda>c. is_aware (c_start c)) cs \<and> list_ex (\<lambda>c. \<not> is_aware (c_start c)) cs
      then Inl TypeError
      else Inr (sort_key (\<lambda>c. instant (c_start c)) cs))"

definition get_consumption_japan ::
  "pylib \<Rightarrow> client \<Rightarrow> world \<Rightarrow> int \<Rightarrow> datetime option \<Rightarrow> datetime option \<Rightarrow>
     (error + Consumption list) \<times> client \<times> world" where
  "get_consumption_japan L c w periods start end' =
     (case ensure_account c w of
        (Inl e, c1, w1) \<Rightarrow> (Inl e, c1, w1)
      | (Inr account_number, c1, w1) \<Rightarrow>
          (case (case end' of
                   None \<Rightarrow> (case now w1 of (t, w2) \<Rightarrow> (Naive t, w2))
                 | Some e \<Rightarrow> (e, w1)) of
             (end_at, w2) \<Rightarrow>
               (case graphql c1 w2 halfHourlyReadings_query
                       (JObj [(''accountNumber'', account_number),
                              (''fromDatetime'', JStr (isoformat L
                                 (case start of
                                    None \<Rightarrow> dt_add end_at (- timedelta_minutes (30 * periods))
                                  | Some s \<Rightarrow> s))),
                              (''toDatetime'', JStr (isoformat L end_at))]) of
                  (Inl e, c2, w3) \<Rightarrow> (Inl e, c2, w3)
                | (Inr data, c2, w3) \<Rightarrow>
                    (and_then (readings_japan L data) sorted_by_start, c2, w3))))"

subsection \<open>\<^verbatim>\<open>_get_consumption_uk\<close>\<close>

text \<open>Lines 368 to 372 and 436 to 440: the parameters of the REST request.\<close>

definition consumption_params ::
  "pylib \<Rightarrow> int \<Rightarrow> datetime option \<Rightarrow> datetime option \<Rightarrow> (string \<times> json) list" where
  "consumption_params L periods start end' =
     [(''page_size'', JNum (of_int periods))] @
     (case start of None \<Rightarrow> [] | Some s \<Rightarrow> [(''period_from'', JStr (isoformat L s))]) @
     (case end' of None \<Rightarrow> [] | Some e \<Rightarrow> [(''period_to'', JStr (isoformat L e))])"

definition reading_uk :: "pylib \<Rightarrow> json \<Rightarrow> error + Consumption list" where
  "reading_uk L r =
     and_then (parse_time L r ''interval_start'') (\<lambda>start_at.
     and_then (parse_time L r ''interval_end'') (\<lambda>end_at.
     and_then (py_item r ''consumption'') (\<lambda>kwh.
     Inr [\<lparr>c_start = start_at, c_end = end_at, c_kwh = kwh, c_cost_estimate = None\<rparr>])))"

definition get_consumption_uk ::
  "pylib \<Rightarrow> client \<Rightarrow> world \<Rightarrow> int \<Rightarrow> datetime option \<Rightarrow> datetime option \<Rightarrow>
     (error + Consumption list) \<times> client \<times> world" where
  "get_consumption_uk L c w periods start end' =
     (if \<not> truthy (mpan c) then
        (Inl (ConfigurationError ''MPAN and meter serial required for UK consumption data''), c, w)
      else if \<not> truthy (meter_serial c) then
        (Inl (ConfigurationError ''MPAN and meter serial required for UK consumption data''), c, w)
      else
        (case send w
                (Get (REST_API_URL @ ''/electricity-meter-points/'' @ str_of L (mpan c) @
                        ''/meters/'' @ str_of L (meter_serial c) @ ''/consumption/'')
                   (consumption_params L periods start end') (api_key c)) of
           (out, w1) \<Rightarrow>
             (case receive out of
                Inl e \<Rightarrow> (Inl e, get_http c, w1)
              | Inr data \<Rightarrow>
                  (and_then (and_then (py_get data ''results'' (JArr [])) py_iter)
                     (collect (reading_uk L)),
                   get_http c, w1))))"

definition get_consumption ::
  "pylib \<Rightarrow> client \<Rightarrow> world \<Rightarrow> int \<Rightarrow> datetime option \<Rightarrow> datetime option \<Rightarrow>
     (error + Consumption list) \<times> client \<times> world" where
  "get_consumption L c w periods start end' =
     (if is_japan c then get_consumption_japan L c w periods start end'
      else get_consumption_uk L c w periods start end')"

subsection \<open>\<^verbatim>\<open>get_daily_usage\<close>\<close>

text \<open>
  Lines 402 to 405. The dict keeps its keys in the order of their first assignment, as
  \<open>AList.update\<close> does; its values are numbers, since \<^verbatim>\<open>0 + c.kwh\<close> is one or raises.
\<close>

fun add_daily ::
  "pylib \<Rightarrow> (string \<times> rat) list \<Rightarrow> Consumption list \<Rightarrow> error + (string \<times> rat) list" where
  "add_daily L daily [] = Inr daily"
| "add_daily L daily (c # cs) =
     (case py_add (case map_of daily (strftime_ymd L (c_start c)) of None \<Rightarrow> 0 | Some x \<Rightarrow> x)
             (c_kwh c) of
        Inl e \<Rightarrow> Inl e
      | Inr kwh \<Rightarrow> add_daily L (AList.update (strftime_ymd L (c_start c)) kwh daily) cs)"

definition get_daily_usage ::
  "pylib \<Rightarrow> client \<Rightarrow> world \<Rightarrow> int \<Rightarrow> (error + (string \<times> rat) list) \<times> client \<times> world" where
  "get_daily_usage L c w days =
     (case get_consumption L c w (days * 48) None None of
        (Inl e, c1, w1) \<Rightarrow> (Inl e, c1, w1)
      | (Inr consumption, c1, w1) \<Rightarrow> (add_daily L [] consumption, c1, w1))"

section \<open>Gas\<close>

subsection \<open>\<^verbatim>\<open>get_gas_consumption\<close>\<close>

definition M3_TO_KWH :: rat where
  "M3_TO_KWH = 11.1868"

text \<open>Lines 456 to 471, the body of the loop.\<close>

definition gas_reading :: "pylib \<Rightarrow> json \<Rightarrow> error + GasConsumption list" where
  "gas_reading L r =
     and_then (py_item r ''consumption'') (\<lambda>consumption.
     and_then (py_less consumption 10) (\<lambda>small.
     and_then (if small then py_mul consumption M3_TO_KWH else Inr consumption) (\<lambda>kwh.
     and_then (parse_time L r ''interval_start'') (\<lambda>start_at.
     and_then (parse_time L r ''interval_end'') (\<lambda>end_at.
     Inr [\<lparr>g_start = start_at, g_end = end_at, g_kwh = kwh,
           g_m3 = (if small then consumption else JNull)\<rparr>])))))"

definition get_gas_consumption ::
  "pylib \<Rightarrow> client \<Rightarrow> world \<Rightarrow> int \<Rightarrow> datetime option \<Rightarrow> datetime option \<Rightarrow>
     (error + GasConsumption list) \<times> client \<times> world" where
  "get_gas_consumption L c w periods start end' =
     (if \<not> truthy (gas_mprn c) then
        (Inl (ConfigurationError ''gas_mprn and gas_meter_serial required for gas data''), c, w)
      else if \<not> truthy (gas_meter_serial c) then
        (Inl (ConfigurationError ''gas_mprn and gas_meter_serial required for gas data''), c, w)
      else
        (case send w
                (Get (REST_API_URL @ ''/gas-meter-points/'' @ str_of L (gas_mprn c) @
                        ''/meters/'' @ str_of L (gas_meter_serial c) @ ''/consumption/'')
                   (consumption_params L periods start end') (api_key c)) of
           (out, w1) \<Rightarrow>
             (case receive out of
                Inl e \<Rightarrow> (Inl e, get_http c, w1)
              | Inr data \<Rightarrow>
                  (and_then (and_then (py_get data ''results'' (JArr [])) py_iter)
                     (collect (gas_reading L)),
                   get_http c, w1))))"

section \<open>Tariffs\<close>

text \<open>
  Lines 521 to 525 and 589 to 593: the tariff of the first active agreement, \<open>None\<close>
  where the methods return \<^verbatim>\<open>None\<close>.
\<close>

definition active_tariff :: "string \<Rightarrow> json \<Rightarrow> error + json option" where
  "active_tariff key data =
     and_then (and_then (py_get data ''account'' (JObj [])) (\<lambda>a. py_get a key (JArr [])))
       (\<lambda>agreements.
          if \<not> truthy agreements then Inr None
          else and_then (and_then (py_index0 agreements) (\<lambda>a. py_get a ''tariff'' (JObj [])))
                 (\<lambda>t. Inr (Some t)))"

text \<open>An \<^verbatim>\<open>except httpx.HTTPError\<close> around a block, with what the handler yields.\<close>

definition except_http_error :: "error + 'a \<Rightarrow> 'a \<Rightarrow> error + 'a" where
  "except_http_error r d =
     (case r of Inl e \<Rightarrow> if is_http_error e then Inr d else Inl e | Inr x \<Rightarrow> Inr x)"

subsection \<open>\<^verbatim>\<open>get_gas_tariff\<close>\<close>

definition gas_rates_request :: "pylib \<Rightarrow> client \<Rightarrow> json \<Rightarrow> string \<Rightarrow> request" where
  "gas_rates_request L c product_code dno =
     Get (REST_API_URL @ ''/products/'' @ str_of L product_code @ ''/gas-tariffs/'' @
            (''G-1R-'' @ str_of L product_code @ ''-'' @ dno) @ ''/standard-unit-rates/'')
       [(''page_size'', JNum 1)] (api_key c)"

text \<open>Lines 532 to 542.\<close>

definition gas_unit_rate :: "outcome \<Rightarrow> error + json" where
  "gas_unit_rate out =
     except_http_error
       (and_then (receive out) (\<lambda>rates_data.
        and_then (and_then (py_get rates_data ''results'' (JArr [JObj []])) py_index0)
          (\<lambda>first. py_get first ''value_inc_vat'' (JNum 0))))
       (JNum 0)"

definition gas_tariff_record :: "json \<Rightarrow> json \<Rightarrow> json \<Rightarrow> error + GasTariff" where
  "gas_tariff_record tariff_data product_code unit_rate =
     and_then (py_get tariff_data ''displayName'' (JStr ''Unknown'')) (\<lambda>name.
     and_then (py_get tariff_data ''standingCharge'' (JNum 0)) (\<lambda>standing_charge.
     Inr \<lparr>gt_name = name, gt_product_code = product_code,
          gt_standing_charge = standing_charge, gt_unit_rate = unit_rate\<rparr>))"

definition get_gas_tariff ::
  "pylib \<Rightarrow> client \<Rightarrow> world \<Rightarrow> string \<Rightarrow> (error + GasTariff option) \<times> client \<times> world" where
  "get_gas_tariff L c w dno =
     (case graphql c w GetGasTariff_query (JObj [(''account'', account c)]) of
        (Inl e, c1, w1) \<Rightarrow> (Inl e, c1, w1)
      | (Inr data, c1, w1) \<Rightarrow>
          (case active_tariff ''gasAgreements'' data of
             Inl e \<Rightarrow> (Inl e, c1, w1)
           | Inr None \<Rightarrow> (Inr None, c1, w1)
           | Inr (Some tariff_data) \<Rightarrow>
               (case py_get tariff_data ''productCode'' (JStr '''') of
                  Inl e \<Rightarrow> (Inl e, c1, w1)
                | Inr product_code \<Rightarrow>
                    (case send w1 (gas_rates_request L c1 product_code dno) of
                       (out, w2) \<Rightarrow>
                         (and_then (gas_unit_rate out) (\<lambda>unit_rate.
                          and_then (gas_tariff_record tariff_data product_code unit_rate)
                            (\<lambda>t. Inr (Some t))),
                          get_http c1, w2)))))"

subsection \<open>\<^verbatim>\<open>get_tariff\<close>\<close>

definition rates_request :: "pylib \<Rightarrow> client \<Rightarrow> json \<Rightarrow> string \<Rightarrow> request" where
  "rates_request L c product_code dno =
     Get (REST_API_URL @ ''/products/'' @ str_of L product_code @ ''/electricity-tariffs/'' @
            (''E-1R-'' @ str_of L product_code @ ''-'' @ dno) @ ''/standard-unit-rates/'')
       [(''page_size'', JNum 10)] (api_key c)"

text \<open>Lines 600 to 609.\<close>

definition rates_data_of :: "outcome \<Rightarrow> error + json" where
  "rates_data_of out = except_http_error (receive out) (JObj [(''results'', JArr [])])"

text \<open>
  Lines 612 to 623: the loop over the first four rates, on the dict of rates and the
  two rates seen last.
\<close>

fun parse_rates ::
  "json list \<Rightarrow> (string \<times> json) list \<times> json \<times> json \<Rightarrow>
     error + (string \<times> json) list \<times> json \<times> json" where
  "parse_rates [] st = Inr st"
| "parse_rates (rate # rs) (rates, off_peak_rate, peak_rate) =
     (case and_then (py_get rate ''value_inc_vat'' (JNum 0)) (\<lambda>val.
             and_then (py_less val 15) (\<lambda>low. Inr (val, low))) of
        Inl e \<Rightarrow> Inl e
      | Inr (val, low) \<Rightarrow>
          if low then parse_rates rs (AList.update ''off_peak'' val rates, val, peak_rate)
          else parse_rates rs (AList.update ''peak'' val rates, off_peak_rate, val))"

definition tariff_record :: "json \<Rightarrow> json \<Rightarrow> json \<Rightarrow> error + Tariff" where
  "tariff_record tariff_data product_code rates_data =
     and_then (and_then (and_then (py_get rates_data ''results'' (JArr [])) py_slice4) py_iter)
       (\<lambda>first_rates.
     and_then (parse_rates first_rates ([], JNull, JNull)) (\<lambda>(rates, off_peak_rate, peak_rate).
     and_then (py_get tariff_data ''displayName'' (JStr ''Unknown'')) (\<lambda>name.
     and_then (py_get tariff_data ''standingCharge'' (JNum 0)) (\<lambda>standing_charge.
     Inr \<lparr>t_name = name, t_product_code = product_code, t_standing_charge = standing_charge,
          t_rates = rates, t_off_peak_rate = off_peak_rate, t_peak_rate = peak_rate,
          t_off_peak_start = ''23:30'', t_off_peak_end = ''05:30''\<rparr>))))"

definition get_tariff ::
  "pylib \<Rightarrow> client \<Rightarrow> world \<Rightarrow> string \<Rightarrow> (error + Tariff option) \<times> client \<times> world" where
  "get_tariff L c w dno =
     (case graphql c w GetTariff_query (JObj [(''account'', account c)]) of
        (Inl e, c1, w1) \<Rightarrow> (Inl e, c1, w1)
      | (Inr data, c1, w1) \<Rightarrow>
          (case active_tariff ''electricityAgreements'' data of
             Inl e \<Rightarrow> (Inl e, c1, w1)
           | Inr None \<Rightarrow> (Inr None, c1, w1)
           | Inr (Some tariff_data) \<Rightarrow>
               (case py_get tariff_data ''productCode'' (JStr '''') of
                  Inl e \<Rightarrow> (Inl e, c1, w1)
                | Inr product_code \<Rightarrow>
                    (case send w1 (rates_request L c1 product_code dno) of
                       (out, w2) \<Rightarrow>
                         (and_then (rates_data_of out) (\<lambda>rates_data.
                          and_then (tariff_record tariff_data product_code rates_data)
                            (\<lambda>t. Inr (Some t))),
                          get_http c1, w2)))))"

section \<open>The settings of a client\<close>

text \<open>
  The fields that \<^verbatim>\<open>__init__\<close> sets from its arguments, the account number apart:
  \<open>same_settings c c'\<close> says that \<open>c'\<close> has them as \<open>c\<close> has.
\<close>

definition same_settings :: "client \<Rightarrow> client \<Rightarrow> bool" where
  "same_settings c c' =
     (region c' = region c \<and> email c' = email c \<and> password c' = password c \<and>
      api_key c' = api_key c \<and> mpan c' = mpan c \<and> meter_serial c' = meter_serial c \<and>
      gas_mprn c' = gas_mprn c \<and> gas_meter_serial c' = gas_meter_serial c \<and>
      graphql_url c' = graphql_url c)"

section \<open>The other methods\<close>

text \<open>
  The methods below read the service through \<^verbatim>\<open>_graphql\<close> and assign no field of the
  client. They need more of Python's library: \<^verbatim>\<open>strftime("%H:%M")\<close> and
  \<^verbatim>\<open>replace(hour=h, minute=m, second=0)\<close> of a naive datetime, the offset from UTC
  that \<^verbatim>\<open>astimezone\<close> gives a naive datetime taken as local time, and \<^verbatim>\<open>int\<close> of a
  string (\<open>None\<close>: \<^verbatim>\<open>ValueError\<close>).
\<close>

record pylib2 =
  strftime_hm :: "int \<Rightarrow> string"
  at_time :: "int \<Rightarrow> int \<Rightarrow> int \<Rightarrow> int"
  local_utcoffset :: "int \<Rightarrow> int"
  int_of_str :: "string \<Rightarrow> int option"

definition timedelta_days :: "int \<Rightarrow> int" where
  "timedelta_days d = d * 86400 * 1000000"

text \<open>Strings are ordered by their characters, the shorter first where one begins the other.\<close>

fun str_less :: "string \<Rightarrow> string \<Rightarrow> bool" where
  "str_less s [] = False"
| "str_less [] (b # t) = True"
| "str_less (a # s) (b # t) =
     ((of_char a :: nat) < of_char b \<or> (a = b \<and> str_less s t))"

text \<open>
  \<^verbatim>\<open>a <= b\<close> and \<^verbatim>\<open>a > b\<close> for datetimes: between a naive and an aware one Python raises
  \<^verbatim>\<open>TypeError\<close>.
\<close>

fun dt_le :: "datetime \<Rightarrow> datetime \<Rightarrow> error + bool" where
  "dt_le (Naive s) (Naive t) = Inr (s \<le> t)"
| "dt_le (Aware s a) (Aware t b) = Inr (s - a \<le> t - b)"
| "dt_le _ _ = Inl TypeError"

definition dt_greater :: "datetime \<Rightarrow> datetime \<Rightarrow> error + bool" where
  "dt_greater a b = and_then (dt_le a b) (\<lambda>le. Inr (\<not> le))"

text \<open>\<^verbatim>\<open>d.replace(tzinfo=None)\<close>: the wall clock of \<open>d\<close>.\<close>

fun wall :: "datetime \<Rightarrow> int" where
  "wall (Naive t) = t"
| "wall (Aware t off) = t"

text \<open>
  \<^verbatim>\<open>now.astimezone(d.tzinfo)\<close> for the naive \<open>now\<close>: the same instant, aware, in the zone
  of \<open>d\<close>, or in the local zone where \<open>d\<close> has none.
\<close>

definition astimezone :: "pylib2 \<Rightarrow> int \<Rightarrow> datetime \<Rightarrow> datetime" where
  "astimezone T now_t d =
     (case d of
        Naive t \<Rightarrow> Aware now_t (local_utcoffset T now_t)
      | Aware t off \<Rightarrow> Aware (now_t - local_utcoffset T now_t + off) off)"

text \<open>
  \<^verbatim>\<open>sorted(xs, key=lambda x: x.start)\<close> and the same with \<^verbatim>\<open>reverse=True\<close>, which keeps
  the order of equal keys; both fail on a naive beside an aware datetime.
\<close>

definition py_sorted :: "('a \<Rightarrow> datetime) \<Rightarrow> 'a list \<Rightarrow> error + 'a list" where
  "py_sorted key xs =
     (if list_ex (\<lambda>x. is_aware (key x)) xs \<and> list_ex (\<lambda>x. \<not> is_aware (key x)) xs
      then Inl TypeError
      else Inr (sort_key (\<lambda>x. instant (key x)) xs))"

definition py_sorted_reverse :: "('a \<Rightarrow> datetime) \<Rightarrow> 'a list \<Rightarrow> error + 'a list" where
  "py_sorted_reverse key xs =
     (if list_ex (\<lambda>x. is_aware (key x)) xs \<and> list_ex (\<lambda>x. \<not> is_aware (key x)) xs
      then Inl TypeError
      else Inr (rev (sort_key (\<lambda>x. instant (key x)) (rev xs))))"

text \<open>\<^verbatim>\<open>xs[:n]\<close> for an integer \<open>n\<close>; a negative \<open>n\<close> counts from the end.\<close>

definition py_take :: "int \<Rightarrow> 'a list \<Rightarrow> 'a list" where
  "py_take n xs =
     (if 0 \<le> n then take (nat n) xs else take (length xs - nat (- n)) xs)"

text \<open>\<^verbatim>\<open>v[-1]\<close>.\<close>

fun py_last :: "json \<Rightarrow> error + json" where
  "py_last (JArr xs) = (if xs = [] then Inl IndexError else Inr (last xs))"
| "py_last (JStr s) = (if s = [] then Inl IndexError else Inr (JStr [last s]))"
| "py_last (JObj kvs) = Inl KeyError"
| "py_last _ = Inl TypeError"

text \<open>\<^verbatim>\<open>int(v)\<close>: a float is cut towards zero.\<close>

fun py_int :: "pylib2 \<Rightarrow> json \<Rightarrow> error + int" where
  "py_int T (JNum x) = Inr (if 0 \<le> x then \<lfloor>x\<rfloor> else \<lceil>x\<rceil>)"
| "py_int T (JBool b) = Inr (if b then 1 else 0)"
| "py_int T (JStr s) = (case int_of_str T s of None \<Rightarrow> Inl ValueError | Some i \<Rightarrow> Inr i)"
| "py_int T _ = Inl TypeError"

text \<open>A loop that returns at the first element that yields a value.\<close>

fun find_first :: "('a \<Rightarrow> error + 'b option) \<Rightarrow> 'a list \<Rightarrow> error + 'b option" where
  "find_first f [] = Inr None"
| "find_first f (x # xs) =
     (case f x of
        Inl e \<Rightarrow> Inl e
      | Inr (Some y) \<Rightarrow> Inr (Some y)
      | Inr None \<Rightarrow> find_first f xs)"

text \<open>The classes of \<^verbatim>\<open>models.py\<close> that these methods make, and the dict of a completed dispatch.\<close>

record Rate =
  r_rate :: json
  r_is_off_peak :: bool
  r_period_end :: int
  r_next_rate :: json

record Dispatch =
  d_start :: datetime
  d_end :: datetime
  d_source :: string

record DispatchStatus =
  ds_is_dispatching :: bool
  ds_current_dispatch :: "Dispatch option"
  ds_next_dispatch :: "Dispatch option"

record CompletedDispatch =
  cd_start :: datetime
  cd_end :: datetime
  cd_kwh :: rat

record SavingSession =
  s_code :: json
  s_start :: datetime
  s_end :: datetime
  s_reward_per_kwh :: json

record LivePower =
  lp_demand_watts :: int
  lp_read_at :: datetime
  lp_consumption_kwh :: json

record SmartDevice =
  sd_device_id :: json
  sd_provider :: json
  sd_status :: json

text \<open>The query text of line 689, character for character (235 characters).\<close>

definition GetDispatches_query :: string where
  "GetDispatches_query = ''\<newline>'' @
     ''            query GetDispatches($account: String!) {\<newline>'' @
     ''                plannedDispatches(accountNumber: $account) {\<newline>'' @
     ''                    start\<newline>'' @
     ''                    end\<newline>'' @
     ''                    delta\<newline>'' @
     ''                }\<newline>'' @
     ''            }\<newline>'' @
     ''            ''"

text \<open>The query text of line 748, character for character (246 characters).\<close>

definition GetCompletedDispatches_query :: string where
  "GetCompletedDispatches_query = ''\<newline>'' @
     ''            query GetCompletedDispatches($account: String!) {\<newline>'' @
     ''                completedDispatches(accountNumber: $account) {\<newline>'' @
     ''                    start\<newline>'' @
     ''                    end\<newline>'' @
     ''                    delta\<newline>'' @
     ''                }\<newline>'' @
     ''            }\<newline>'' @
     ''            ''"

text \<open>The query text of line 788, character for character (351 characters).\<close>

definition GetSavingSessions_query :: string where
  "GetSavingSessions_query = ''\<newline>'' @
     ''            query GetSavingSessions($account: String!) {\<newline>'' @
     ''                savingSessions(accountNumber: $account) {\<newline>'' @
     ''                    events {\<newline>'' @
     ''                        code\<newline>'' @
     ''                        startAt\<newline>'' @
     ''                        endAt\<newline>'' @
     ''                        rewardPerKwhInOctoPoints\<newline>'' @
     ''                    }\<newline>'' @
     ''                }\<newline>'' @
     ''            }\<newline>'' @
     ''            ''"

text \<open>The query text of line 851, character for character (423 characters).\<close>

definition GetTelemetry_query :: string where
  "GetTelemetry_query = ''\<newline>'' @
     ''            query GetTelemetry($deviceId: String!, $start: DateTime!, $end: DateTime!) {\<newline>'' @
     ''                smartMeterTelemetry(\<newline>'' @
     ''                    deviceId: $deviceId\<newline>'' @
     ''                    grouping: HALF_HOURLY\<newline>'' @
     ''                    start: $start\<newline>'' @
     ''                    end: $end\<newline>'' @
     ''                ) {\<newline>'' @
     ''                    readAt\<newline>'' @
     ''                    demand\<newline>'' @
     ''                    consumption\<newline>'' @
     ''                }\<newline>'' @
     ''            }\<newline>'' @
     ''            ''"

text \<open>The query text of line 889, character for character (474 characters).\<close>

definition DiscoverDevices_query :: string where
  "DiscoverDevices_query = ''\<newline>'' @
     ''            query DiscoverDevices($account: String!) {\<newline>'' @
     ''                account(accountNumber: $account) {\<newline>'' @
     ''                    properties {\<newline>'' @
     ''                        electricityMeterPoints {\<newline>'' @
     ''                            meters {\<newline>'' @
     ''                                smartDevices {\<newline>'' @
     ''                                    deviceId\<newline>'' @
     ''                                }\<newline>'' @
     ''                            }\<newline>'' @
     ''                        }\<newline>'' @
     ''                    }\<newline>'' @
     ''                }\<newline>'' @
     ''            }\<newline>'' @
     ''            ''"

text \<open>The query text of line 932, character for character (260 characters).\<close>

definition GetDevices_query :: string where
  "GetDevices_query = ''\<newline>'' @
     ''            query GetDevices($account: String!) {\<newline>'' @
     ''                registeredKrakenflexDevice(accountNumber: $account) {\<newline>'' @
     ''                    krakenflexDeviceId\<newline>'' @
     ''                    provider\<newline>'' @
     ''                    status\<newline>'' @
     ''                }\<newline>'' @
     ''            }\<newline>'' @
     ''            ''"

subsection \<open>\<^verbatim>\<open>get_daily_gas_usage\<close>\<close>

text \<open>Lines 486 to 489, the loop of \<^verbatim>\<open>get_daily_usage\<close> over gas readings.\<close>

fun add_daily_gas ::
  "pylib \<Rightarrow> (string \<times> rat) list \<Rightarrow> GasConsumption list \<Rightarrow> error + (string \<times> rat) list" where
  "add_daily_gas L daily [] = Inr daily"
| "add_daily_gas L daily (c # cs) =
     (case py_add (case map_of daily (strftime_ymd L (g_start c)) of None \<Rightarrow> 0 | Some x \<Rightarrow> x)
             (g_kwh c) of
        Inl e \<Rightarrow> Inl e
      | Inr kwh \<Rightarrow> add_daily_gas L (AList.update (strftime_ymd L (g_start c)) kwh daily) cs)"

definition get_daily_gas_usage ::
  "pylib \<Rightarrow> client \<Rightarrow> world \<Rightarrow> int \<Rightarrow> (error + (string \<times> rat) list) \<times> client \<times> world" where
  "get_daily_gas_usage L c w days =
     (case get_gas_consumption L c w (days * 48) None None of
        (Inl e, c1, w1) \<Rightarrow> (Inl e, c1, w1)
      | (Inr consumption, c1, w1) \<Rightarrow> (add_daily_gas L [] consumption, c1, w1))"

subsection \<open>\<^verbatim>\<open>get_current_rate\<close>\<close>

text \<open>Lines 646 to 672. The method reads the clock and nothing of the client.\<close>

definition get_current_rate :: "pylib2 \<Rightarrow> world \<Rightarrow> Tariff \<Rightarrow> Rate \<times> world" where
  "get_current_rate T w tariff =
     (case now w of (now_t, w1) \<Rightarrow>
        (if \<not> str_less (strftime_hm T now_t) ''23:30'' then
           (\<lparr>r_rate = py_or (t_off_peak_rate tariff) (JNum 7), r_is_off_peak = True,
             r_period_end = at_time T (now_t + timedelta_days 1) 5 30,
             r_next_rate = py_or (t_peak_rate tariff) (JNum 30)\<rparr>, w1)
         else if str_less (strftime_hm T now_t) ''05:30'' then
           (\<lparr>r_rate = py_or (t_off_peak_rate tariff) (JNum 7), r_is_off_peak = True,
             r_period_end = at_time T now_t 5 30,
             r_next_rate = py_or (t_peak_rate tariff) (JNum 30)\<rparr>, w1)
         else
           (\<lparr>r_rate = py_or (t_peak_rate tariff) (JNum 30), r_is_off_peak = False,
             r_period_end =
               (if at_time T now_t 23 30 \<le> now_t then at_time T now_t 23 30 + timedelta_days 1
                else at_time T now_t 23 30),
             r_next_rate = py_or (t_off_peak_rate tariff) (JNum 7)\<rparr>, w1)))"

subsection \<open>\<^verbatim>\<open>get_dispatches\<close> and \<^verbatim>\<open>get_dispatch_status\<close>\<close>

text \<open>
  \<^verbatim>\<open>except (ValueError, KeyError): continue\<close>, of lines 709, 768 and 819: unlike line
  352 it lets a \<^verbatim>\<open>TypeError\<close> pass.
\<close>

definition skip_value_key_error :: "error + 'a \<Rightarrow> error + 'a list" where
  "skip_value_key_error r =
     (case r of
        Inr x \<Rightarrow> Inr [x]
      | Inl e \<Rightarrow>
          if e = ValueError \<or> e = JSONDecodeError \<or> e = KeyError then Inr [] else Inl e)"

text \<open>Lines 704 to 708.\<close>

definition dispatch_of :: "pylib \<Rightarrow> json \<Rightarrow> error + Dispatch" where
  "dispatch_of L d =
     and_then (parse_time L d ''start'') (\<lambda>start_at.
     and_then (parse_time L d ''end'') (\<lambda>end_at.
     Inr \<lparr>d_start = start_at, d_end = end_at, d_source = ''smart-charge''\<rparr>))"

definition get_dispatches ::
  "pylib \<Rightarrow> client \<Rightarrow> world \<Rightarrow> (error + Dispatch list) \<times> client \<times> world" where
  "get_dispatches L c w =
     (case graphql c w GetDispatches_query (JObj [(''account'', account c)]) of
        (Inl e, c1, w1) \<Rightarrow> (Inl e, c1, w1)
      | (Inr data, c1, w1) \<Rightarrow>
          (and_then (and_then (and_then (py_get data ''plannedDispatches'' JNull)
                       (\<lambda>planned. py_iter (py_or planned (JArr []))))
                     (collect (\<lambda>d. skip_value_key_error (dispatch_of L d))))
             (py_sorted d_start),
           c1, w1))"

text \<open>Lines 727 to 732: the loop, on the current and the next dispatch found so far.\<close>

fun dispatch_scan ::
  "pylib2 \<Rightarrow> int \<Rightarrow> Dispatch list \<Rightarrow> Dispatch option \<times> Dispatch option \<Rightarrow>
     error + Dispatch option \<times> Dispatch option" where
  "dispatch_scan T now_t [] st = Inr st"
| "dispatch_scan T now_t (d # ds) (current, next_dispatch) =
     (case and_then (dt_le (d_start d) (astimezone T now_t (d_start d))) (\<lambda>started.
             if started then
               and_then (dt_le (astimezone T now_t (d_start d)) (d_end d)) (\<lambda>running.
                 if running then Inr (Some d, next_dispatch)
                 else and_then (dt_greater (d_start d) (astimezone T now_t (d_start d)))
                        (\<lambda>later. Inr (current,
                           if later \<and> next_dispatch = None then Some d else next_dispatch)))
             else and_then (dt_greater (d_start d) (astimezone T now_t (d_start d)))
                    (\<lambda>later. Inr (current,
                       if later \<and> next_dispatch = None then Some d else next_dispatch))) of
        Inl e \<Rightarrow> Inl e
      | Inr st \<Rightarrow> dispatch_scan T now_t ds st)"

definition get_dispatch_status ::
  "pylib \<Rightarrow> pylib2 \<Rightarrow> client \<Rightarrow> world \<Rightarrow> (error + DispatchStatus) \<times> client \<times> world" where
  "get_dispatch_status L T c w =
     (case get_dispatches L c w of
        (Inl e, c1, w1) \<Rightarrow> (Inl e, c1, w1)
      | (Inr dispatches, c1, w1) \<Rightarrow>
          (case now w1 of (now_t, w2) \<Rightarrow>
             (and_then (dispatch_scan T now_t dispatches (None, None))
                (\<lambda>(current, next_dispatch).
                   Inr \<lparr>ds_is_dispatching = (current \<noteq> None), ds_current_dispatch = current,
                        ds_next_dispatch = next_dispatch\<rparr>),
              c1, w2)))"

subsection \<open>\<^verbatim>\<open>get_completed_dispatches\<close>\<close>

text \<open>Lines 763 to 767.\<close>

definition completed_of :: "pylib \<Rightarrow> json \<Rightarrow> error + CompletedDispatch" where
  "completed_of L d =
     and_then (parse_time L d ''start'') (\<lambda>start_at.
     and_then (parse_time L d ''end'') (\<lambda>end_at.
     and_then (and_then (py_get d ''delta'' (JNum 0)) (py_float L)) (\<lambda>delta.
     Inr \<lparr>cd_start = start_at, cd_end = end_at, cd_kwh = \<bar>delta\<bar>\<rparr>)))"

definition get_completed_dispatches ::
  "pylib \<Rightarrow> client \<Rightarrow> world \<Rightarrow> int \<Rightarrow> (error + CompletedDispatch list) \<times> client \<times> world" where
  "get_completed_dispatches L c w limit =
     (case graphql c w GetCompletedDispatches_query (JObj [(''account'', account c)]) of
        (Inl e, c1, w1) \<Rightarrow> (Inl e, c1, w1)
      | (Inr data, c1, w1) \<Rightarrow>
          (and_then (and_then (and_then (and_then (py_get data ''completedDispatches'' JNull)
                       (\<lambda>completed. py_iter (py_or completed (JArr []))))
                     (collect (\<lambda>d. skip_value_key_error (completed_of L d))))
             (py_sorted_reverse cd_start)) (\<lambda>sessions. Inr (py_take limit sessions)),
           c1, w1))"

subsection \<open>\<^verbatim>\<open>get_saving_sessions\<close>\<close>

text \<open>Lines 808 to 818: a session is kept when it ends, by its wall clock, after now.\<close>

definition session_of :: "pylib \<Rightarrow> int \<Rightarrow> json \<Rightarrow> error + SavingSession list" where
  "session_of L now_t e =
     and_then (parse_time L e ''startAt'') (\<lambda>start_at.
     and_then (parse_time L e ''endAt'') (\<lambda>end_at.
     if now_t < wall end_at then
       and_then (py_get e ''code'' (JStr '''')) (\<lambda>code.
       and_then (py_get e ''rewardPerKwhInOctoPoints'' (JNum 0)) (\<lambda>reward.
       Inr [\<lparr>s_code = code, s_start = start_at, s_end = end_at, s_reward_per_kwh = reward\<rparr>]))
     else Inr []))"

definition get_saving_sessions ::
  "pylib \<Rightarrow> client \<Rightarrow> world \<Rightarrow> (error + SavingSession list) \<times> client \<times> world" where
  "get_saving_sessions L c w =
     (case graphql c w GetSavingSessions_query (JObj [(''account'', account c)]) of
        (Inl e, c1, w1) \<Rightarrow> (Inl e, c1, w1)
      | (Inr data, c1, w1) \<Rightarrow>
          (case now w1 of (now_t, w2) \<Rightarrow>
             (and_then (and_then (and_then (and_then (py_get data ''savingSessions'' (JObj []))
                          (\<lambda>s. py_get s ''events'' (JArr [])))
                        (\<lambda>events. py_iter (py_or events (JArr []))))
                      (collect (\<lambda>e. and_then (skip_value_key_error (session_of L now_t e))
                                      (\<lambda>found. Inr (concat found)))))
                (py_sorted s_start),
              c1, w2)))"

subsection \<open>\<^verbatim>\<open>_discover_meter_device\<close> and \<^verbatim>\<open>get_live_power\<close>\<close>

text \<open>Lines 908 to 914: the first device with a truthy \<^verbatim>\<open>deviceId\<close>.\<close>

definition first_device :: "json \<Rightarrow> error + json option" where
  "first_device data =
     and_then (and_then (and_then (py_item data ''account'') (\<lambda>a. py_item a ''properties''))
                 py_iter)
       (find_first (\<lambda>prop.
          and_then (and_then (py_get prop ''electricityMeterPoints'' (JArr [])) py_iter)
            (find_first (\<lambda>mp.
               and_then (and_then (py_get mp ''meters'' (JArr [])) py_iter)
                 (find_first (\<lambda>meter.
                    and_then (and_then (py_get meter ''smartDevices'' (JArr [])) py_iter)
                      (find_first (\<lambda>device.
                         and_then (py_get device ''deviceId'' JNull) (\<lambda>found.
                           if truthy found
                           then and_then (py_item device ''deviceId'') (\<lambda>i. Inr (Some i))
                           else Inr None)))))))))"

text \<open>Lines 907 to 918: \<^verbatim>\<open>except (KeyError, TypeError): pass\<close>, then \<^verbatim>\<open>return None\<close>.\<close>

definition discover_meter_device ::
  "client \<Rightarrow> world \<Rightarrow> (error + json option) \<times> client \<times> world" where
  "discover_meter_device c w =
     (case graphql c w DiscoverDevices_query (JObj [(''account'', account c)]) of
        (Inl e, c1, w1) \<Rightarrow> (Inl e, c1, w1)
      | (Inr data, c1, w1) \<Rightarrow>
          ((case first_device data of
              Inl e \<Rightarrow> if e = KeyError \<or> e = TypeError then Inr None else Inl e
            | Inr found \<Rightarrow> Inr found),
           c1, w1))"

text \<open>Lines 877 to 884, the \<^verbatim>\<open>try\<close> on the latest reading.\<close>

definition live_power_of :: "pylib \<Rightarrow> pylib2 \<Rightarrow> json \<Rightarrow> error + LivePower option" where
  "live_power_of L T latest =
     (case and_then (and_then (py_get latest ''demand'' JNull)
                  (\<lambda>demand. py_int T (py_or demand (JNum 0)))) (\<lambda>watts.
           and_then (parse_time L latest ''readAt'') (\<lambda>read_at.
           and_then (py_get latest ''consumption'' JNull) (\<lambda>kwh.
           Inr \<lparr>lp_demand_watts = watts, lp_read_at = read_at, lp_consumption_kwh = kwh\<rparr>))) of
        Inr p \<Rightarrow> Inr (Some p)
      | Inl e \<Rightarrow>
          if e = ValueError \<or> e = JSONDecodeError \<or> e = KeyError then Inr None else Inl e)"

text \<open>Lines 847 to 884, once the device is known.\<close>

definition live_power_for ::
  "pylib \<Rightarrow> pylib2 \<Rightarrow> client \<Rightarrow> world \<Rightarrow> json \<Rightarrow>
     (error + LivePower option) \<times> client \<times> world" where
  "live_power_for L T c w device_id =
     (case now w of (end_t, w1) \<Rightarrow>
        (case graphql c w1 GetTelemetry_query
                (JObj [(''deviceId'', device_id),
                       (''start'', JStr (isoformat L (Naive (end_t - timedelta_minutes 30)) @ ''Z'')),
                       (''end'', JStr (isoformat L (Naive end_t) @ ''Z''))]) of
           (Inl e, c1, w2) \<Rightarrow> (Inl e, c1, w2)
         | (Inr data, c1, w2) \<Rightarrow>
             (and_then (py_get data ''smartMeterTelemetry'' JNull) (\<lambda>found.
                if \<not> truthy (py_or found (JArr [])) then Inr None
                else and_then (py_last (py_or found (JArr []))) (live_power_of L T)),
              c1, w2)))"

definition get_live_power ::
  "pylib \<Rightarrow> pylib2 \<Rightarrow> client \<Rightarrow> world \<Rightarrow> json \<Rightarrow>
     (error + LivePower option) \<times> client \<times> world" where
  "get_live_power L T c w device_id =
     (if \<not> truthy device_id then
        (case discover_meter_device c w of
           (Inl e, c1, w1) \<Rightarrow> (Inl e, c1, w1)
         | (Inr None, c1, w1) \<Rightarrow> (Inr None, c1, w1)
         | (Inr (Some found), c1, w1) \<Rightarrow>
             if \<not> truthy found then (Inr None, c1, w1)
             else live_power_for L T c1 w1 found)
      else live_power_for L T c w device_id)"

subsection \<open>\<^verbatim>\<open>get_smart_devices\<close>\<close>

definition get_smart_devices ::
  "client \<Rightarrow> world \<Rightarrow> (error + SmartDevice list) \<times> client \<times> world" where
  "get_smart_devices c w =
     (case graphql c w GetDevices_query (JObj [(''account'', account c)]) of
        (Inl e, c1, w1) \<Rightarrow> (Inl e, c1, w1)
      | (Inr data, c1, w1) \<Rightarrow>
          (and_then (py_get data ''registeredKrakenflexDevice'' JNull) (\<lambda>device.
             if truthy device then
               and_then (py_item device ''krakenflexDeviceId'') (\<lambda>device_id.
               and_then (py_item device ''provider'') (\<lambda>provider.
               and_then (py_get device ''status'' (JStr ''ACTIVE'')) (\<lambda>status.
               Inr [\<lparr>sd_device_id = device_id, sd_provider = provider, sd_status = status\<rparr>])))
             else Inr []),
           c1, w1))"

section \<open>Example clients and services\<close>

text \<open>The clients of the class's docstring, and a service that answers them.\<close>

definition japan_client :: client where
  "japan_client =
     OctopusClient (JStr ''user@example.com'') (JStr ''xxx'') JNull JNull ''japan''
       JNull JNull JNull JNull"

definition uk_client :: client where
  "uk_client =
     OctopusClient JNull JNull (JStr ''sk_live_xxx'') (JStr ''A-1234'') ''uk''
       JNull JNull JNull JNull"

definition token_reply :: json where
  "token_reply =
     JObj [(''data'', JObj [(''obtainKrakenToken'',
       JObj [(''token'', JStr ''tok1''), (''refreshToken'', JStr ''ref1'')])])]"

text \<open>
  The service answers a request for a token with \<open>token_reply\<close>, a query with \<open>body\<close>
  and a REST request with \<open>rest\<close>.
\<close>

fun service :: "json \<Rightarrow> outcome \<Rightarrow> request \<Rightarrow> outcome" where
  "service body rest (Post u None b) = Response True (Some token_reply)"
| "service body rest (Post u (Some t) b) = Response True (Some body)"
| "service body rest (Get u p a) = rest"

definition demo_world :: "json \<Rightarrow> outcome \<Rightarrow> world" where
  "demo_world body rest =
     \<lparr>clock = (\<lambda>k. 1000000 * int k), reads = 0, remote = (\<lambda>k. service body rest), sent = []\<rparr>"

text \<open>The Japan client and the world after its first token.\<close>

definition client1 :: client where
  "client1 =
     japan_client\<lparr>http := Some (), token := JStr ''tok1'', refresh_token := JStr ''ref1'',
       token_expires := Some 3300000000\<rparr>"

definition world1 :: "json \<Rightarrow> outcome \<Rightarrow> world" where
  "world1 body rest =
     (demo_world body rest)\<lparr>reads := 1,
       sent := [Post ''https://api.oejp-kraken.energy/v1/graphql/'' None
         (JObj [(''query'', JStr obtainKrakenToken_mutation),
                (''variables'', JObj [(''input'',
                   JObj [(''email'', JStr ''user@example.com''), (''password'', JStr ''xxx'')])])])]\<rparr>"

definition errors_body :: json where
  "errors_body = JObj [(''errors'', JArr [JObj [(''message'', JStr ''boom'')]])]"

definition viewer_body :: json where
  "viewer_body =
     JObj [(''data'', JObj [(''viewer'', JObj [(''accounts'',
       JArr [JObj [(''number'', JStr ''A-6CBDDE7D'')]])])])]"

text \<open>A service that answers every request with \<open>errors_body\<close>.\<close>

definition refusing_world :: world where
  "refusing_world =
     \<lparr>clock = (\<lambda>k. 1000000 * int k), reads = 0,
      remote = (\<lambda>k req. Response True (Some errors_body)), sent = []\<rparr>"

text \<open>The UK client and the world after its first token.\<close>

definition uk_client1 :: client where
  "uk_client1 =
     uk_client\<lparr>http := Some (), token := JStr ''tok1'', refresh_token := JStr ''ref1'',
       token_expires := Some 3300000000\<rparr>"

definition uk_world1 :: "json \<Rightarrow> outcome \<Rightarrow> world" where
  "uk_world1 body rest =
     (demo_world body rest)\<lparr>reads := 1,
       sent := [Post ''https://api.octopus.energy/v1/graphql/'' None
         (JObj [(''query'', JStr ObtainToken_mutation),
                (''variables'', JObj [(''key'', JStr ''sk_live_xxx'')])])]\<rparr>"

text \<open>A response to \<^verbatim>\<open>GetAccount\<close>, and the Japan client with its account number known.\<close>

definition account_body :: json where
  "account_body =
     JObj [(''data'', JObj [(''account'',
       JObj [(''balance'', JNum 1234), (''billingName'', JNull), (''status'', JStr ''ACTIVE''),
             (''properties'', JArr [JObj [(''address'', JStr ''1 High Street'')]])])])]"

definition japan_account_client :: client where
  "japan_account_client = japan_client\<lparr>account := JStr ''A-6CBDDE7D''\<rparr>"

text \<open>
  A library for the examples: it parses three timestamps and two numbers, and counts
  the days from the first of January 2024.
\<close>

definition demo_lib :: pylib where
  "demo_lib =
     \<lparr>fromisoformat = (\<lambda>s.
        if s = ''2024-01-01T00:00:00+00:00'' then Some (Aware 0 0)
        else if s = ''2024-01-01T00:30:00+00:00'' then Some (Aware 1800000000 0)
        else if s = ''2024-01-02T00:00:00+00:00'' then Some (Aware 86400000000 0)
        else None),
      float_of_str = (\<lambda>s.
        if s = ''0.5'' then Some (1 / 2) else if s = ''0.25'' then Some (1 / 4) else None),
      isoformat = (\<lambda>d. ''2024-01-01T00:00:00''),
      strftime_ymd = (\<lambda>d. if instant d < 86400000000 then ''2024-01-01'' else ''2024-01-02''),
      str_of = (\<lambda>v. case v of JStr s \<Rightarrow> s | _ \<Rightarrow> ''None'')\<rparr>"

text \<open>A response to \<^verbatim>\<open>GetTariff\<close> and to \<^verbatim>\<open>GetGasTariff\<close>.\<close>

definition tariff_data :: json where
  "tariff_data =
     JObj [(''displayName'', JStr ''Intelligent Octopus Go''),
           (''productCode'', JStr ''INTELLI-VAR-22-10-14''), (''standingCharge'', JNum 47.85)]"

definition tariff_body :: json where
  "tariff_body =
     JObj [(''data'', JObj [(''account'',
       JObj [(''electricityAgreements'', JArr [JObj [(''tariff'', tariff_data)]]),
             (''gasAgreements'', JArr [JObj [(''tariff'', tariff_data)]])])])]"

text \<open>A UK client with a gas meter, and two gas readings: half a cubic metre, and 12 kWh.\<close>

definition uk_gas_client :: client where
  "uk_gas_client =
     uk_client\<lparr>gas_mprn := JStr ''1234567890'', gas_meter_serial := JStr ''G4P01234567800''\<rparr>"

definition gas_body :: json where
  "gas_body =
     JObj [(''results'', JArr
       [JObj [(''consumption'', JNum (1 / 2)),
              (''interval_start'', JStr ''2024-01-01T00:00:00Z''),
              (''interval_end'', JStr ''2024-01-01T00:30:00Z'')],
        JObj [(''consumption'', JNum 12),
              (''interval_start'', JStr ''2024-01-01T00:30:00Z''),
              (''interval_end'', JStr ''2024-01-02T00:00:00Z'')]])]"



text \<open>
  Responses to \<^verbatim>\<open>halfHourlyReadings\<close>: three readings out of order, one of them
  without a value; and one reading whose \<^verbatim>\<open>startAt\<close> is null.
\<close>

definition readings_body :: json where
  "readings_body =
     JObj [(''data'', JObj [(''account'', JObj [(''properties'', JArr
       [JObj [(''electricitySupplyPoints'', JArr
          [JObj [(''status'', JStr ''ON_SUPPLY''),
                 (''halfHourlyReadings'', JArr
                    [JObj [(''startAt'', JStr ''2024-01-01T00:30:00Z''), (''value'', JStr ''0.5''),
                           (''costEstimate'', JNull)],
                     JObj [(''startAt'', JStr ''2024-01-02T00:00:00Z''), (''value'', JNull),
                           (''costEstimate'', JNull)],
                     JObj [(''startAt'', JStr ''2024-01-01T00:00:00Z''), (''value'', JStr ''0.25''),
                           (''costEstimate'', JStr ''0.5'')]])]])]])])])]"

definition null_start_body :: json where
  "null_start_body =
     JObj [(''data'', JObj [(''account'', JObj [(''properties'', JArr
       [JObj [(''electricitySupplyPoints'', JArr
          [JObj [(''status'', JStr ''ON_SUPPLY''),
                 (''halfHourlyReadings'', JArr
                    [JObj [(''startAt'', JNull), (''value'', JStr ''0.5''),
                           (''costEstimate'', JNull)]])]])]])])])]"

text \<open>A response that answers both \<^verbatim>\<open>accountViewer\<close> and \<^verbatim>\<open>GetAccount\<close>.\<close>

definition discovery_body :: json where
  "discovery_body =
     JObj [(''data'', JObj
       [(''viewer'', JObj [(''accounts'', JArr [JObj [(''number'', JStr ''A-6CBDDE7D'')]])]),
        (''account'',
           JObj [(''balance'', JNum 1234), (''billingName'', JNull), (''status'', JStr ''ACTIVE''),
                 (''properties'', JArr [])])])]"

text \<open>A service whose every answer has the key \<^verbatim>\<open>errors\<close> with an empty list.\<close>

definition empty_errors_world :: world where
  "empty_errors_world =
     \<lparr>clock = (\<lambda>k. 1000000 * int k), reads = 0,
      remote = (\<lambda>k req. Response True (Some (JObj [(''errors'', JArr [])]))), sent = []\<rparr>"


section \<open>What the operations keep\<close>

lemma get_http_fields [simp]:
  "region (get_http c) = region c" "email (get_http c) = email c"
  "password (get_http c) = password c" "api_key (get_http c) = api_key c"
  "account (get_http c) = account c" "mpan (get_http c) = mpan c"
  "meter_serial (get_http c) = meter_serial c" "gas_mprn (get_http c) = gas_mprn c"
  "gas_meter_serial (get_http c) = gas_meter_serial c" "token (get_http c) = token c"
  "refresh_token (get_http c) = refresh_token c" "token_expires (get_http c) = token_expires c"
  "graphql_url (get_http c) = graphql_url c" "http (get_http c) = Some ()"
  by (simp_all add: get_http_def)

lemma token_request_get_http [simp]: "token_request (get_http c) = token_request c"
  by (simp add: token_request_def is_japan_def)

lemma graphql_request_get_http [simp]:
  "graphql_request (get_http c) tok q v = graphql_request c tok q v"
  by (simp add: graphql_request_def)

lemma token_is_fresh_eq:
  "token_is_fresh c w =
     (if truthy (token c) \<and> token_expires c \<noteq> None
      then (clock w (reads w) < the (token_expires c), w\<lparr>reads := Suc (reads w)\<rparr>)
      else (False, w))"
  by (auto simp: token_is_fresh_def now_def split: option.splits)

lemma store_token_Inr:
  "store_token c w data = (Inr t, c', w') \<Longrightarrow>
     and_then (and_then (py_item data ''data'') (\<lambda>d. py_item d ''obtainKrakenToken''))
        (\<lambda>td. py_item td ''token'') = Inr t \<and>
     token c' = t \<and> reads w' = Suc (reads w) \<and> sent w' = sent w \<and>
     token_expires c' = Some (clock w (reads w) + timedelta_minutes 55)"
  by (auto simp: store_token_def now_def and_then_def split: sum.splits if_splits)

lemma same_settings_refl [simp]: "same_settings c c"
  by (simp add: same_settings_def)

lemma same_settings_trans: "same_settings a b \<Longrightarrow> same_settings b c \<Longrightarrow> same_settings a c"
  by (simp add: same_settings_def)

lemma same_settings_get_http [simp]: "same_settings c (get_http c)"
  by (simp add: same_settings_def)

lemma store_token_frame:
  "store_token c w data = (r, c', w') \<Longrightarrow> same_settings c c' \<and> account c' = account c"
  by (auto simp: store_token_def now_def same_settings_def split: sum.splits if_splits)

lemma store_token_world:
  "store_token c w data = (r, c', w') \<Longrightarrow>
     clock w' = clock w \<and> remote w' = remote w \<and> sent w' = sent w"
  by (auto simp: store_token_def now_def split: sum.splits if_splits)

lemma get_token_frame:
  "get_token c w = (r, c', w') \<Longrightarrow> same_settings c c' \<and> account c' = account c"
  by (auto simp: get_token_def token_is_fresh_eq send_def
           split: if_splits sum.splits prod.splits
           dest!: store_token_frame
           intro: same_settings_trans [OF same_settings_get_http])

lemma get_token_world:
  "get_token c w = (r, c', w') \<Longrightarrow>
     clock w' = clock w \<and> remote w' = remote w \<and>
     (sent w' = sent w \<or> (\<exists>req. token_request c = Inr req \<and> sent w' = sent w @ [req]))"
  by (auto simp: get_token_def token_is_fresh_eq send_def
           split: if_splits sum.splits prod.splits dest!: store_token_world)

lemma token_request_url: "token_request c = Inr req \<Longrightarrow> request_url req = graphql_url c"
  by (auto simp: token_request_def split: if_splits)

text \<open>No step of \<^verbatim>\<open>_get_token\<close> raises \<^verbatim>\<open>APIError\<close>.\<close>

lemma receive_not_APIError: "receive out \<noteq> Inl (APIError m)"
  by (cases out) (auto split: option.splits)

lemma token_request_not_APIError: "token_request c \<noteq> Inl (APIError m)"
  by (auto simp: token_request_def)

lemma py_item_not_APIError: "py_item v k \<noteq> Inl (APIError m)"
  by (cases v) (auto split: option.splits)

lemma py_index0_not_APIError: "py_index0 v \<noteq> Inl (APIError m)"
  by (cases v) (auto split: list.splits)

lemma py_contains_not_APIError: "py_contains k v \<noteq> Inl (APIError m)"
  by (cases v) auto

lemma first_error_message_not_APIError: "first_error_message v \<noteq> Inl (APIError m)"
  using py_item_not_APIError py_index0_not_APIError
  by (auto simp: first_error_message_def and_then_def split: sum.splits)

lemma store_token_not_APIError: "fst (store_token c w data) \<noteq> Inl (APIError m)"
  using py_item_not_APIError py_contains_not_APIError
  by (auto simp: store_token_def and_then_def now_def split: sum.splits if_splits)

lemma get_token_not_APIError: "fst (get_token c w) \<noteq> Inl (APIError m)"
  using receive_not_APIError token_request_not_APIError py_contains_not_APIError
    first_error_message_not_APIError store_token_not_APIError
  by (auto simp: get_token_def send_def split: sum.splits prod.splits if_splits)

section \<open>The example clients at work\<close>

lemmas fixtures = japan_client_def uk_client_def OctopusClient_def GRAPHQL_URLS_def
  GRAPHQL_URL_def demo_world_def token_reply_def client1_def world1_def

lemmas token_defs = get_token_def token_is_fresh_def token_request_def is_japan_def get_http_def
  send_def now_def store_token_def first_error_message_def and_then_def timedelta_minutes_def

lemma get_token_japan_client:
  "get_token japan_client (demo_world b r) = (Inr (JStr ''tok1''), client1, world1 b r)"
  by (simp add: fixtures token_defs)

lemma get_token_client1:
  "get_token client1 (world1 b r) = (Inr (JStr ''tok1''), client1, (world1 b r)\<lparr>reads := 2\<rparr>)"
  by (simp add: fixtures token_defs)

lemma graphql_japan_client:
  "graphql japan_client (demo_world b r) q v =
     (and_then (and_then (py_contains ''errors'' b)
        (\<lambda>has. if has then and_then (first_error_message b) (\<lambda>m. Inl (APIError m))
               else py_item b ''data'')) Inr,
      client1, (world1 b r)\<lparr>sent := sent (world1 b r) @ [graphql_request client1 (JStr ''tok1'') q v]\<rparr>)"
  unfolding graphql_def get_token_japan_client
  by (simp add: send_def and_then_def world1_def demo_world_def client1_def get_http_def
        graphql_request_def split: sum.splits)

section \<open>The token\<close>

text \<open>
  Claim C1. \<^verbatim>\<open>_get_token\<close> never reuses an expired token. If a token is present and the
  clock, read at the call, is strictly before the recorded expiry, the call returns the
  cached token, changes nothing in the client and sends nothing. In every other case a
  token it returns is the one of the response to a request it has just sent, it is the
  token the client now holds, and the recorded expiry is 55 minutes after the reading
  of the clock taken once the response has arrived.
\<close>

theorem get_token_never_reuses_expired:
  "get_token c w = (r, c', w') \<Longrightarrow>
     (truthy (token c) \<and> (\<exists>e. token_expires c = Some e \<and> clock w (reads w) < e)
        \<longrightarrow> r = Inr (token c) \<and> c' = c \<and> sent w' = sent w) \<and>
     (\<not> (truthy (token c) \<and> (\<exists>e. token_expires c = Some e \<and> clock w (reads w) < e))
        \<longrightarrow> (\<forall>t. r = Inr t \<longrightarrow>
             (\<exists>req data k. token_request c = Inr req \<and> sent w' = sent w @ [req] \<and>
                receive (remote w (length (sent w)) req) = Inr data \<and>
                and_then (and_then (py_item data ''data'') (\<lambda>d. py_item d ''obtainKrakenToken''))
                  (\<lambda>td. py_item td ''token'') = Inr t \<and>
                token c' = t \<and> reads w \<le> k \<and> reads w' = Suc k \<and>
                token_expires c' = Some (clock w k + timedelta_minutes 55))))"
  apply (simp add: get_token_def token_is_fresh_eq send_def split: if_splits sum.splits prod.splits)
  apply (auto dest!: store_token_Inr)
  done

theorem get_token_never_reuses_expired_witness:
  "get_token japan_client (demo_world JNull TransportError) =
     (Inr (JStr ''tok1''), client1, world1 JNull TransportError) \<and>
   \<not> truthy (token japan_client) \<and>
   token_expires client1 = Some (clock (demo_world JNull TransportError) 0 + timedelta_minutes 55) \<and>
   sent (world1 JNull TransportError) \<noteq> sent (demo_world JNull TransportError) \<and>
   truthy (token client1) \<and> token_expires client1 = Some 3300000000 \<and>
   clock (world1 JNull TransportError) (reads (world1 JNull TransportError)) < 3300000000 \<and>
   get_token client1 (world1 JNull TransportError) =
     (Inr (token client1), client1, (world1 JNull TransportError)\<lparr>reads := 2\<rparr>)"
proof -
  have stale: "\<not> truthy (token japan_client)"
    by (simp add: fixtures)
  have fresh: "truthy (token client1) \<and> (\<exists>e. token_expires client1 = Some e \<and>
      clock (world1 JNull TransportError) (reads (world1 JNull TransportError)) < e)"
    by (simp add: fixtures)
  from get_token_never_reuses_expired [OF get_token_japan_client, of JNull TransportError] stale
  have "\<exists>req data k. token_request japan_client = Inr req \<and>
      sent (world1 JNull TransportError) = sent (demo_world JNull TransportError) @ [req] \<and>
      receive (remote (demo_world JNull TransportError)
        (length (sent (demo_world JNull TransportError))) req) = Inr data \<and>
      and_then (and_then (py_item data ''data'') (\<lambda>d. py_item d ''obtainKrakenToken''))
        (\<lambda>td. py_item td ''token'') = Inr (JStr ''tok1'') \<and>
      token client1 = JStr ''tok1'' \<and> reads (demo_world JNull TransportError) \<le> k \<and>
      reads (world1 JNull TransportError) = Suc k \<and>
      token_expires client1 = Some (clock (demo_world JNull TransportError) k + timedelta_minutes 55)"
    by blast
  then have a: "token_expires client1 =
      Some (clock (demo_world JNull TransportError) 0 + timedelta_minutes 55) \<and>
      sent (world1 JNull TransportError) \<noteq> sent (demo_world JNull TransportError)"
    by (auto simp: world1_def demo_world_def)
  from get_token_never_reuses_expired [OF get_token_client1, of JNull TransportError] fresh
  have b: "Inr (JStr ''tok1'') = Inr (token client1)"
    by blast
  show ?thesis
    using a b stale fresh get_token_japan_client get_token_client1
    by (simp add: client1_def world1_def demo_world_def)
qed

section \<open>The error envelope\<close>

text \<open>
  Claim C2, as the code has it. The envelope is read with
  \<^verbatim>\<open>data["errors"][0]["message"]\<close>, which needs more than the key: once the token is
  there and the response to the query has passed \<^verbatim>\<open>raise_for_status()\<close> and parsed to
  a dict, \<^verbatim>\<open>_graphql\<close> raises \<^verbatim>\<open>APIError\<close> with the message of the first entry when
  the value of \<^verbatim>\<open>errors\<close> is a list whose first entry is a dict with a
  \<^verbatim>\<open>message\<close>, and returns the value of \<^verbatim>\<open>data\<close> when the dict has no key
  \<^verbatim>\<open>errors\<close> and has \<^verbatim>\<open>data\<close>. \<^verbatim>\<open>_graphql\<close> raises \<^verbatim>\<open>APIError\<close> only for a response
  that contains \<^verbatim>\<open>errors\<close>, and only with that message. \<^verbatim>\<open>_get_token\<close>, when it asks
  for a token, raises \<^verbatim>\<open>AuthenticationError\<close> with the first message in the same way.
\<close>

theorem uniform_error_envelope:
  "(get_token c w = (Inr tok, c1, w1) \<longrightarrow>
    receive (remote w1 (length (sent w1)) (graphql_request c1 tok query variables)) =
      Inr (JObj kvs) \<longrightarrow>
      (\<forall>e es m. map_of kvs ''errors'' = Some (JArr (JObj e # es)) \<and>
           map_of e ''message'' = Some m \<longrightarrow>
         fst (graphql c w query variables) = Inl (APIError m)) \<and>
      (\<forall>d. map_of kvs ''errors'' = None \<and> map_of kvs ''data'' = Some d \<longrightarrow>
         fst (graphql c w query variables) = Inr d)) \<and>
   (\<forall>m. fst (graphql c w query variables) = Inl (APIError m) \<longrightarrow>
      (\<exists>tok c1 w1 data. get_token c w = (Inr tok, c1, w1) \<and>
         receive (remote w1 (length (sent w1)) (graphql_request c1 tok query variables)) =
           Inr data \<and>
         py_contains ''errors'' data = Inr True \<and> first_error_message data = Inr m)) \<and>
   (\<not> fst (token_is_fresh c w) \<longrightarrow> token_request c = Inr req \<longrightarrow>
    receive (remote w (length (sent w)) req) = Inr (JObj kvs') \<longrightarrow>
      (\<forall>e es m. map_of kvs' ''errors'' = Some (JArr (JObj e # es)) \<and>
           map_of e ''message'' = Some m \<longrightarrow>
         fst (get_token c w) = Inl (AuthenticationError m)))"
proof (intro conjI impI allI)
  fix e es m
  assume "get_token c w = (Inr tok, c1, w1)"
    and "receive (remote w1 (length (sent w1)) (graphql_request c1 tok query variables)) =
      Inr (JObj kvs)"
    and "map_of kvs ''errors'' = Some (JArr (JObj e # es)) \<and> map_of e ''message'' = Some m"
  then show "fst (graphql c w query variables) = Inl (APIError m)"
    by (simp add: graphql_def send_def first_error_message_def and_then_def)
next
  fix d
  assume "get_token c w = (Inr tok, c1, w1)"
    and "receive (remote w1 (length (sent w1)) (graphql_request c1 tok query variables)) =
      Inr (JObj kvs)"
    and "map_of kvs ''errors'' = None \<and> map_of kvs ''data'' = Some d"
  then show "fst (graphql c w query variables) = Inr d"
    by (simp add: graphql_def send_def)
next
  fix m
  assume "fst (graphql c w query variables) = Inl (APIError m)"
  moreover have "fst (get_token c w) \<noteq> Inl (APIError m)"
    by (rule get_token_not_APIError)
  ultimately show "\<exists>tok c1 w1 data. get_token c w = (Inr tok, c1, w1) \<and>
         receive (remote w1 (length (sent w1)) (graphql_request c1 tok query variables)) =
           Inr data \<and>
         py_contains ''errors'' data = Inr True \<and> first_error_message data = Inr m"
    using receive_not_APIError py_contains_not_APIError first_error_message_not_APIError
      py_item_not_APIError
    by (auto simp: graphql_def send_def split: if_splits sum.splits prod.splits)
next
  fix e es m
  assume "\<not> fst (token_is_fresh c w)" "token_request c = Inr req"
    "receive (remote w (length (sent w)) req) = Inr (JObj kvs')"
    "map_of kvs' ''errors'' = Some (JArr (JObj e # es)) \<and> map_of e ''message'' = Some m"
  then show "fst (get_token c w) = Inl (AuthenticationError m)"
    by (auto simp: get_token_def token_is_fresh_eq send_def first_error_message_def and_then_def
           split: if_splits prod.splits)
qed

theorem uniform_error_envelope_witness:
  "get_token japan_client (demo_world errors_body TransportError) =
     (Inr (JStr ''tok1''), client1, world1 errors_body TransportError) \<and>
   fst (graphql japan_client (demo_world errors_body TransportError) accountViewer_query JNull) =
     Inl (APIError (JStr ''boom'')) \<and>
   get_token japan_client (demo_world viewer_body TransportError) =
     (Inr (JStr ''tok1''), client1, world1 viewer_body TransportError) \<and>
   fst (graphql japan_client (demo_world viewer_body TransportError) accountViewer_query JNull) =
     Inr (JObj [(''viewer'', JObj [(''accounts'',
       JArr [JObj [(''number'', JStr ''A-6CBDDE7D'')]])])]) \<and>
   \<not> fst (token_is_fresh japan_client refusing_world) \<and>
   fst (get_token japan_client refusing_world) = Inl (AuthenticationError (JStr ''boom''))"
proof -
  let ?q = accountViewer_query
  let ?req = "graphql_request client1 (JStr ''tok1'') ?q JNull"
  have r1: "receive (remote (world1 errors_body TransportError)
      (length (sent (world1 errors_body TransportError))) ?req) =
        Inr (JObj [(''errors'', JArr [JObj [(''message'', JStr ''boom'')]])])"
    by (simp add: fixtures errors_body_def viewer_body_def graphql_request_def)
  have r2: "receive (remote (world1 viewer_body TransportError)
      (length (sent (world1 viewer_body TransportError))) ?req) =
        Inr (JObj [(''data'', JObj [(''viewer'', JObj [(''accounts'',
          JArr [JObj [(''number'', JStr ''A-6CBDDE7D'')]])])])])"
    by (simp add: fixtures errors_body_def viewer_body_def graphql_request_def)
  have stale: "\<not> fst (token_is_fresh japan_client refusing_world)"
    by (simp add: fixtures refusing_world_def token_is_fresh_def)
  have rq: "token_request japan_client =
      Inr (Post ''https://api.oejp-kraken.energy/v1/graphql/'' None
        (JObj [(''query'', JStr obtainKrakenToken_mutation),
               (''variables'', JObj [(''input'',
                  JObj [(''email'', JStr ''user@example.com''), (''password'', JStr ''xxx'')])])]))"
    by (simp add: fixtures token_request_def is_japan_def)
  have r3: "receive (remote refusing_world (length (sent refusing_world))
      (Post ''https://api.oejp-kraken.energy/v1/graphql/'' None
        (JObj [(''query'', JStr obtainKrakenToken_mutation),
               (''variables'', JObj [(''input'',
                  JObj [(''email'', JStr ''user@example.com''), (''password'', JStr ''xxx'')])])]))) =
        Inr (JObj [(''errors'', JArr [JObj [(''message'', JStr ''boom'')]])])"
    by (simp add: fixtures refusing_world_def errors_body_def)
  from uniform_error_envelope [of japan_client "demo_world errors_body TransportError"
      "JStr ''tok1''" client1 "world1 errors_body TransportError" ?q JNull
      "[(''errors'', JArr [JObj [(''message'', JStr ''boom'')]])]"]
    get_token_japan_client r1
  have a: "fst (graphql japan_client (demo_world errors_body TransportError) ?q JNull) =
      Inl (APIError (JStr ''boom''))"
    by simp
  from uniform_error_envelope [of japan_client "demo_world viewer_body TransportError"
      "JStr ''tok1''" client1 "world1 viewer_body TransportError" ?q JNull
      "[(''data'', JObj [(''viewer'', JObj [(''accounts'',
          JArr [JObj [(''number'', JStr ''A-6CBDDE7D'')]])])])]"]
    get_token_japan_client r2
  have b: "fst (graphql japan_client (demo_world viewer_body TransportError) ?q JNull) =
      Inr (JObj [(''viewer'', JObj [(''accounts'',
        JArr [JObj [(''number'', JStr ''A-6CBDDE7D'')]])])])"
    by simp
  from uniform_error_envelope [of japan_client refusing_world _ _ _ _ _ _ _
      "[(''errors'', JArr [JObj [(''message'', JStr ''boom'')]])]"]
    stale rq r3
  have c: "fst (get_token japan_client refusing_world) = Inl (AuthenticationError (JStr ''boom''))"
    by simp
  from a b c stale get_token_japan_client show ?thesis
    by simp
qed

text \<open>
  Claim C2 as it is written fails: the key \<^verbatim>\<open>errors\<close> alone does not make an
  \<^verbatim>\<open>APIError\<close>. A body \<^verbatim>\<open>{"errors": []}\<close> contains the key, and both \<^verbatim>\<open>_graphql\<close>
  and \<^verbatim>\<open>_get_token\<close> raise \<^verbatim>\<open>IndexError\<close> on it.
\<close>

theorem errors_key_alone_raises_IndexError:
  "py_contains ''errors'' (JObj [(''errors'', JArr [])]) = Inr True \<and>
   fst (graphql japan_client (demo_world (JObj [(''errors'', JArr [])]) TransportError)
      accountViewer_query JNull) = Inl IndexError \<and>
   fst (get_token japan_client empty_errors_world) = Inl IndexError"
proof -
  have "fst (get_token japan_client empty_errors_world) = Inl IndexError"
    by (simp add: fixtures empty_errors_world_def token_defs)
  then show ?thesis
    by (simp add: graphql_japan_client first_error_message_def and_then_def)
qed

section \<open>The two authentication flows\<close>

text \<open>
  Claim C3. The request for a token follows the region. In Japan it carries the
  refresh token when one is held, else the email and the password when both are
  there, and \<^verbatim>\<open>AuthenticationError\<close> is raised when neither is available; in the UK it
  carries the API key, and \<^verbatim>\<open>AuthenticationError\<close> is raised without one. When
  \<^verbatim>\<open>_get_token\<close> has no fresh token, this request is the one it sends, and this error
  the one it raises, with nothing sent.
\<close>

theorem token_flow_by_region:
  "(region c = ''japan'' \<and> truthy (refresh_token c) \<longrightarrow>
      token_request c = Inr (Post (graphql_url c) None
        (JObj [(''query'', JStr obtainKrakenToken_mutation),
               (''variables'', JObj [(''input'', JObj [(''refreshToken'', refresh_token c)])])]))) \<and>
   (region c = ''japan'' \<and> \<not> truthy (refresh_token c) \<and> truthy (email c) \<and>
      truthy (password c) \<longrightarrow>
      token_request c = Inr (Post (graphql_url c) None
        (JObj [(''query'', JStr obtainKrakenToken_mutation),
               (''variables'', JObj [(''input'',
                  JObj [(''email'', email c), (''password'', password c)])])]))) \<and>
   (region c = ''japan'' \<and> \<not> truthy (refresh_token c) \<and>
      \<not> (truthy (email c) \<and> truthy (password c)) \<longrightarrow>
      token_request c =
        Inl (AuthenticationError (JStr ''Japan region requires email and password''))) \<and>
   (region c = ''uk'' \<and> truthy (api_key c) \<longrightarrow>
      token_request c = Inr (Post (graphql_url c) None
        (JObj [(''query'', JStr ObtainToken_mutation),
               (''variables'', JObj [(''key'', api_key c)])]))) \<and>
   (region c = ''uk'' \<and> \<not> truthy (api_key c) \<longrightarrow>
      token_request c = Inl (AuthenticationError (JStr ''UK region requires API key''))) \<and>
   (\<not> fst (token_is_fresh c w) \<longrightarrow>
      (case token_request c of
         Inl e \<Rightarrow> fst (get_token c w) = Inl e \<and> sent (snd (snd (get_token c w))) = sent w
       | Inr req \<Rightarrow> sent (snd (snd (get_token c w))) = sent w @ [req]))"
proof (intro conjI impI)
  assume "\<not> fst (token_is_fresh c w)"
  then show "case token_request c of
         Inl e \<Rightarrow> fst (get_token c w) = Inl e \<and> sent (snd (snd (get_token c w))) = sent w
       | Inr req \<Rightarrow> sent (snd (snd (get_token c w))) = sent w @ [req]"
    by (auto simp: get_token_def token_is_fresh_eq send_def store_token_def now_def
           split: if_splits sum.splits prod.splits)
qed (simp_all add: token_request_def is_japan_def)

theorem token_flow_by_region_witness:
  "region client1 = ''japan'' \<and> truthy (refresh_token client1) \<and>
   token_request client1 = Inr (Post ''https://api.oejp-kraken.energy/v1/graphql/'' None
     (JObj [(''query'', JStr obtainKrakenToken_mutation),
            (''variables'', JObj [(''input'', JObj [(''refreshToken'', JStr ''ref1'')])])])) \<and>
   \<not> truthy (refresh_token japan_client) \<and> truthy (email japan_client) \<and>
   truthy (password japan_client) \<and>
   token_request japan_client = Inr (Post ''https://api.oejp-kraken.energy/v1/graphql/'' None
     (JObj [(''query'', JStr obtainKrakenToken_mutation),
            (''variables'', JObj [(''input'',
               JObj [(''email'', JStr ''user@example.com''), (''password'', JStr ''xxx'')])])])) \<and>
   token_request (japan_client\<lparr>password := JNull\<rparr>) =
     Inl (AuthenticationError (JStr ''Japan region requires email and password'')) \<and>
   region uk_client = ''uk'' \<and> truthy (api_key uk_client) \<and>
   token_request uk_client = Inr (Post ''https://api.octopus.energy/v1/graphql/'' None
     (JObj [(''query'', JStr ObtainToken_mutation),
            (''variables'', JObj [(''key'', JStr ''sk_live_xxx'')])])) \<and>
   token_request (uk_client\<lparr>api_key := JNull\<rparr>) =
     Inl (AuthenticationError (JStr ''UK region requires API key'')) \<and>
   \<not> fst (token_is_fresh japan_client (demo_world JNull TransportError)) \<and>
   sent (snd (snd (get_token japan_client (demo_world JNull TransportError)))) =
     [Post ''https://api.oejp-kraken.energy/v1/graphql/'' None
       (JObj [(''query'', JStr obtainKrakenToken_mutation),
              (''variables'', JObj [(''input'',
                 JObj [(''email'', JStr ''user@example.com''), (''password'', JStr ''xxx'')])])])]"
proof -
  have p1: "region client1 = ''japan'' \<and> truthy (refresh_token client1)"
    and p2: "region japan_client = ''japan'' \<and> \<not> truthy (refresh_token japan_client) \<and>
      truthy (email japan_client) \<and> truthy (password japan_client)"
    and p3: "region (japan_client\<lparr>password := JNull\<rparr>) = ''japan'' \<and>
      \<not> truthy (refresh_token (japan_client\<lparr>password := JNull\<rparr>)) \<and>
      \<not> (truthy (email (japan_client\<lparr>password := JNull\<rparr>)) \<and>
         truthy (password (japan_client\<lparr>password := JNull\<rparr>)))"
    and p4: "region uk_client = ''uk'' \<and> truthy (api_key uk_client)"
    and p5: "region (uk_client\<lparr>api_key := JNull\<rparr>) = ''uk'' \<and>
      \<not> truthy (api_key (uk_client\<lparr>api_key := JNull\<rparr>))"
    and p6: "\<not> fst (token_is_fresh japan_client (demo_world JNull TransportError))"
    by (simp_all add: fixtures token_is_fresh_def)
  note t = token_flow_by_region
  from t [of client1] p1 have a: "token_request client1 =
      Inr (Post (graphql_url client1) None
        (JObj [(''query'', JStr obtainKrakenToken_mutation),
               (''variables'', JObj [(''input'',
                  JObj [(''refreshToken'', refresh_token client1)])])]))"
    by blast
  from t [of japan_client] p2 have b: "token_request japan_client =
      Inr (Post (graphql_url japan_client) None
        (JObj [(''query'', JStr obtainKrakenToken_mutation),
               (''variables'', JObj [(''input'',
                  JObj [(''email'', email japan_client),
                        (''password'', password japan_client)])])]))"
    by blast
  from t [of "japan_client\<lparr>password := JNull\<rparr>"] p3
  have c: "token_request (japan_client\<lparr>password := JNull\<rparr>) =
      Inl (AuthenticationError (JStr ''Japan region requires email and password''))"
    by blast
  from t [of uk_client] p4 have d: "token_request uk_client =
      Inr (Post (graphql_url uk_client) None
        (JObj [(''query'', JStr ObtainToken_mutation),
               (''variables'', JObj [(''key'', api_key uk_client)])]))"
    by blast
  from t [of "uk_client\<lparr>api_key := JNull\<rparr>"] p5
  have e: "token_request (uk_client\<lparr>api_key := JNull\<rparr>) =
      Inl (AuthenticationError (JStr ''UK region requires API key''))"
    by blast
  from t [of japan_client "demo_world JNull TransportError"] p6 b
  have f: "sent (snd (snd (get_token japan_client (demo_world JNull TransportError)))) =
      sent (demo_world JNull TransportError) @ [Post (graphql_url japan_client) None
        (JObj [(''query'', JStr obtainKrakenToken_mutation),
               (''variables'', JObj [(''input'',
                  JObj [(''email'', email japan_client),
                        (''password'', password japan_client)])])])]"
    by simp
  from a b c d e f p1 p2 p4 p6 show ?thesis
    by (simp add: fixtures)
qed

section \<open>The endpoint of the region\<close>

text \<open>
  Claim C4. A client made for the region \<^verbatim>\<open>japan\<close> or \<^verbatim>\<open>uk\<close> has the URL that
  \<^verbatim>\<open>GRAPHQL_URLS\<close> holds for that region, and one made for any other region has the
  URL of Japan. A call of \<^verbatim>\<open>_graphql\<close> leaves the URL as it is, every request it sends
  goes to that URL, and when the token is there the last request it sends is the query,
  posted to that URL.
\<close>

theorem graphql_posts_to_region_url:
  "(r \<in> {''japan'', ''uk''} \<longrightarrow>
      map_of GRAPHQL_URLS r = Some (graphql_url (OctopusClient e p k a r m1 m2 m3 m4))) \<and>
   (r \<notin> {''japan'', ''uk''} \<longrightarrow>
      map_of GRAPHQL_URLS ''japan'' = Some (graphql_url (OctopusClient e p k a r m1 m2 m3 m4))) \<and>
   (graphql c w query variables = (res, c', w') \<longrightarrow>
      graphql_url c' = graphql_url c \<and>
      (\<exists>new. sent w' = sent w @ new \<and>
         list_all (\<lambda>req. request_url req = graphql_url c) new \<and>
         (\<forall>tok c1 w1. get_token c w = (Inr tok, c1, w1) \<longrightarrow>
            new \<noteq> [] \<and> last new = graphql_request c tok query variables)))"
proof (intro conjI impI)
  assume g: "graphql c w query variables = (res, c', w')"
  obtain r1 c1 w1 where t: "get_token c w = (r1, c1, w1)"
    by (cases "get_token c w") auto
  from get_token_frame [OF t] have fr: "graphql_url c1 = graphql_url c"
    by (simp add: same_settings_def)
  note wo = get_token_world [OF t]
  from g t fr show "graphql_url c' = graphql_url c"
    by (auto simp: graphql_def send_def split: if_splits sum.splits prod.splits)
  have gr: "graphql_request c1 tok query variables = graphql_request c tok query variables"
    for tok
    using fr by (simp add: graphql_request_def)
  show "\<exists>new. sent w' = sent w @ new \<and>
         list_all (\<lambda>req. request_url req = graphql_url c) new \<and>
         (\<forall>tok c1 w1. get_token c w = (Inr tok, c1, w1) \<longrightarrow>
            new \<noteq> [] \<and> last new = graphql_request c tok query variables)"
  proof (cases r1)
    case (Inl err)
    with g t have "w' = w1"
      by (simp add: graphql_def)
    with wo t Inl show ?thesis
      by (auto dest: token_request_url)
  next
    case (Inr tok)
    with g t have s: "sent w' = sent w1 @ [graphql_request c tok query variables]"
      by (auto simp: graphql_def send_def gr split: if_splits sum.splits prod.splits)
    have u: "request_url (graphql_request c tok query variables) = graphql_url c"
      by (simp add: graphql_request_def)
    from wo have "sent w1 = sent w \<or>
        (\<exists>req. token_request c = Inr req \<and> sent w1 = sent w @ [req])"
      by blast
    then show ?thesis
    proof
      assume "sent w1 = sent w"
      with s t Inr u show ?thesis
        by auto
    next
      assume "\<exists>req. token_request c = Inr req \<and> sent w1 = sent w @ [req]"
      then obtain req where "token_request c = Inr req" "sent w1 = sent w @ [req]"
        by blast
      with s t Inr u token_request_url [of c req] show ?thesis
        by auto
    qed
  qed
qed (auto simp: OctopusClient_def GRAPHQL_URLS_def GRAPHQL_URL_def)

theorem graphql_posts_to_region_url_witness:
  "graphql_url japan_client = ''https://api.oejp-kraken.energy/v1/graphql/'' \<and>
   graphql_url uk_client = ''https://api.octopus.energy/v1/graphql/'' \<and>
   graphql_url (OctopusClient JNull JNull JNull JNull ''fr'' JNull JNull JNull JNull) =
     ''https://api.oejp-kraken.energy/v1/graphql/'' \<and>
   graphql japan_client (demo_world viewer_body TransportError) accountViewer_query JNull =
     (Inr (JObj [(''viewer'', JObj [(''accounts'',
        JArr [JObj [(''number'', JStr ''A-6CBDDE7D'')]])])]), client1,
      (world1 viewer_body TransportError)\<lparr>sent := sent (world1 viewer_body TransportError) @
        [graphql_request client1 (JStr ''tok1'') accountViewer_query JNull]\<rparr>) \<and>
   graphql_url client1 = graphql_url japan_client \<and>
   list_all (\<lambda>req. request_url req = graphql_url japan_client)
     (sent (world1 viewer_body TransportError) @
        [graphql_request client1 (JStr ''tok1'') accountViewer_query JNull])"
proof -
  note t = graphql_posts_to_region_url
  have m: "map_of GRAPHQL_URLS ''japan'' = Some ''https://api.oejp-kraken.energy/v1/graphql/''"
    "map_of GRAPHQL_URLS ''uk'' = Some ''https://api.octopus.energy/v1/graphql/''"
    by (simp_all add: GRAPHQL_URLS_def)
  have "''japan'' \<in> {''japan'', ''uk''}" "''uk'' \<in> {''japan'', ''uk''}"
    "''fr'' \<notin> {''japan'', ''uk''}"
    by simp_all
  with t [of "''japan''" "JStr ''user@example.com''" "JStr ''xxx''" JNull JNull JNull JNull JNull JNull]
    t [of "''uk''" JNull JNull "JStr ''sk_live_xxx''" "JStr ''A-1234''" JNull JNull JNull JNull]
    t [of "''fr''" JNull JNull JNull JNull JNull JNull JNull JNull] m
  have a: "graphql_url japan_client = ''https://api.oejp-kraken.energy/v1/graphql/''"
    "graphql_url uk_client = ''https://api.octopus.energy/v1/graphql/''"
    "graphql_url (OctopusClient JNull JNull JNull JNull ''fr'' JNull JNull JNull JNull) =
       ''https://api.oejp-kraken.energy/v1/graphql/''"
    by (simp_all add: japan_client_def uk_client_def)
  have g: "graphql japan_client (demo_world viewer_body TransportError) accountViewer_query JNull =
     (Inr (JObj [(''viewer'', JObj [(''accounts'',
        JArr [JObj [(''number'', JStr ''A-6CBDDE7D'')]])])]), client1,
      (world1 viewer_body TransportError)\<lparr>sent := sent (world1 viewer_body TransportError) @
        [graphql_request client1 (JStr ''tok1'') accountViewer_query JNull]\<rparr>)"
    by (simp add: graphql_japan_client) (simp add: viewer_body_def and_then_def)
  from t [of _ _ _ _ _ _ _ _ _ japan_client "demo_world viewer_body TransportError"
      accountViewer_query JNull] g
  have b: "graphql_url client1 = graphql_url japan_client \<and>
      (\<exists>new. sent ((world1 viewer_body TransportError)\<lparr>sent :=
           sent (world1 viewer_body TransportError) @
           [graphql_request client1 (JStr ''tok1'') accountViewer_query JNull]\<rparr>) =
         sent (demo_world viewer_body TransportError) @ new \<and>
         list_all (\<lambda>req. request_url req = graphql_url japan_client) new)"
    by blast
  then have "list_all (\<lambda>req. request_url req = graphql_url japan_client)
     (sent (world1 viewer_body TransportError) @
        [graphql_request client1 (JStr ''tok1'') accountViewer_query JNull])"
    by (auto simp: demo_world_def)
  with a b g show ?thesis
    by simp
qed

section \<open>The account\<close>

lemma graphql_frame:
  "graphql c w q v = (r, c', w') \<Longrightarrow> same_settings c c' \<and> account c' = account c"
proof -
  assume g: "graphql c w q v = (r, c', w')"
  obtain r1 c1 w1 where t: "get_token c w = (r1, c1, w1)"
    by (cases "get_token c w") auto
  from g t have "c' = c1 \<or> c' = get_http c1"
    by (auto simp: graphql_def send_def split: if_splits sum.splits prod.splits)
  with get_token_frame [OF t] show ?thesis
    by (auto simp: same_settings_def)
qed

lemma graphql_world:
  "graphql c w q v = (r, c', w') \<Longrightarrow>
     clock w' = clock w \<and> remote w' = remote w \<and> (\<exists>new. sent w' = sent w @ new)"
proof -
  assume g: "graphql c w q v = (r, c', w')"
  obtain r1 c1 w1 where t: "get_token c w = (r1, c1, w1)"
    by (cases "get_token c w") auto
  from g t have "w' = w1 \<or> (\<exists>req. w' = w1\<lparr>sent := sent w1 @ [req]\<rparr>)"
    by (auto simp: graphql_def send_def split: if_splits sum.splits prod.splits)
  with get_token_world [OF t] show ?thesis
    by auto
qed

lemma ensure_account_frame:
  "ensure_account c w = (r, c', w') \<Longrightarrow> same_settings c c'"
proof -
  assume e: "ensure_account c w = (r, c', w')"
  obtain r1 c1 w1 where g: "graphql c w accountViewer_query JNull = (r1, c1, w1)"
    by (cases "graphql c w accountViewer_query JNull") auto
  from e g have "c' = c \<or> c' = c1 \<or> (\<exists>n. c' = c1\<lparr>account := n\<rparr>)"
    by (auto simp: ensure_account_def split: if_splits sum.splits prod.splits)
  with graphql_frame [OF g] show ?thesis
    by (auto simp: same_settings_def)
qed

lemma py_or_simps [simp]:
  "py_or JNull d = d" "truthy x \<Longrightarrow> py_or x d = x" "\<not> truthy x \<Longrightarrow> py_or x d = d"
  by (simp_all add: py_or_def)

text \<open>
  Claim C5. Let \<^verbatim>\<open>_ensure_account\<close> give the account number and the \<^verbatim>\<open>GetAccount\<close>
  query give a response whose \<^verbatim>\<open>account\<close> is a dict with a balance, a billing name and
  a status, the balance a number unless the region is Japan, and whose properties are
  absent, null or empty, or a list whose first entry is a dict with an address. Then
  \<^verbatim>\<open>get_account\<close> returns an \<^verbatim>\<open>Account\<close> with that number; its balance is the raw
  balance in the region \<^verbatim>\<open>japan\<close> and the raw balance divided by 100 in the region
  \<^verbatim>\<open>uk\<close>; name and status are the empty string where the raw field is null, and the
  raw field where this is a non-empty string; the address is the one of the first
  property, or the empty string without properties.
\<close>

theorem get_account_normalizes:
  "ensure_account c w = (Inr num, c1, w1) \<Longrightarrow>
   graphql c1 w1 GetAccount_query (JObj [(''account'', num)]) = (Inr data, c2, w2) \<Longrightarrow>
   py_item data ''account'' = Inr (JObj acc) \<Longrightarrow>
   map_of acc ''balance'' = Some bal \<Longrightarrow>
   region c = ''japan'' \<or> is_number bal \<Longrightarrow>
   map_of acc ''billingName'' = Some nm \<Longrightarrow>
   map_of acc ''status'' = Some st \<Longrightarrow>
   (ad = JStr '''' \<and> (map_of acc ''properties'' = None \<or> map_of acc ''properties'' = Some JNull \<or>
       map_of acc ''properties'' = Some (JArr []))) \<or>
   (\<exists>p ps. map_of acc ''properties'' = Some (JArr (JObj p # ps)) \<and>
       map_of p ''address'' = Some ad) \<Longrightarrow>
   \<exists>a. get_account c w = (Inr a, c2, w2) \<and>
     a_number a = num \<and>
     (region c = ''japan'' \<longrightarrow> a_balance a = bal) \<and>
     (region c = ''uk'' \<longrightarrow> a_balance a = JNum (num_val bal / 100)) \<and>
     (nm = JNull \<longrightarrow> a_name a = JStr '''') \<and>
     (\<forall>s. nm = JStr s \<and> s \<noteq> [] \<longrightarrow> a_name a = nm) \<and>
     (st = JNull \<longrightarrow> a_status a = JStr '''') \<and>
     (\<forall>s. st = JStr s \<and> s \<noteq> [] \<longrightarrow> a_status a = st) \<and>
     a_address a = ad"
proof -
  assume e: "ensure_account c w = (Inr num, c1, w1)"
    and g: "graphql c1 w1 GetAccount_query (JObj [(''account'', num)]) = (Inr data, c2, w2)"
    and acc: "py_item data ''account'' = Inr (JObj acc)"
    and bal: "map_of acc ''balance'' = Some bal" "region c = ''japan'' \<or> is_number bal"
    and nm: "map_of acc ''billingName'' = Some nm"
    and st: "map_of acc ''status'' = Some st"
    and ad: "(ad = JStr '''' \<and> (map_of acc ''properties'' = None \<or>
        map_of acc ''properties'' = Some JNull \<or> map_of acc ''properties'' = Some (JArr []))) \<or>
      (\<exists>p ps. map_of acc ''properties'' = Some (JArr (JObj p # ps)) \<and>
        map_of p ''address'' = Some ad)"
  from ensure_account_frame [OF e] graphql_frame [OF g] have r: "region c2 = region c"
    by (simp add: same_settings_def)
  have "account_record c2 num data =
      Inr \<lparr>a_number = num,
           a_balance = (if region c = ''japan'' then bal else JNum (num_val bal / 100)),
           a_name = py_or nm (JStr ''''), a_status = py_or st (JStr ''''), a_address = ad\<rparr>"
    using ad bal r nm st unfolding account_record_def acc
    by (auto simp: and_then_def is_japan_def py_truediv_def)
  with e g show ?thesis
    by (auto simp: get_account_def)
qed

lemma get_token_uk_client:
  "get_token uk_client (demo_world b r) = (Inr (JStr ''tok1''), uk_client1, uk_world1 b r)"
  by (simp add: fixtures uk_client1_def uk_world1_def token_defs)

lemma graphql_uk_client:
  "graphql uk_client (demo_world b r) q v =
     (and_then (and_then (py_contains ''errors'' b)
        (\<lambda>has. if has then and_then (first_error_message b) (\<lambda>m. Inl (APIError m))
               else py_item b ''data'')) Inr,
      uk_client1,
      (uk_world1 b r)\<lparr>sent := sent (uk_world1 b r) @
        [graphql_request uk_client1 (JStr ''tok1'') q v]\<rparr>)"
  unfolding graphql_def get_token_uk_client
  by (simp add: send_def and_then_def uk_world1_def demo_world_def uk_client1_def get_http_def
        graphql_request_def split: sum.splits)

lemma get_token_japan_account_client:
  "get_token japan_account_client (demo_world b r) =
     (Inr (JStr ''tok1''), client1\<lparr>account := JStr ''A-6CBDDE7D''\<rparr>, world1 b r)"
  by (simp add: fixtures japan_account_client_def token_defs)

lemma graphql_japan_account_client:
  "graphql japan_account_client (demo_world b r) q v =
     (and_then (and_then (py_contains ''errors'' b)
        (\<lambda>has. if has then and_then (first_error_message b) (\<lambda>m. Inl (APIError m))
               else py_item b ''data'')) Inr,
      client1\<lparr>account := JStr ''A-6CBDDE7D''\<rparr>,
      (world1 b r)\<lparr>sent := sent (world1 b r) @
        [graphql_request client1 (JStr ''tok1'') q v]\<rparr>)"
  unfolding graphql_def get_token_japan_account_client
  by (simp add: send_def and_then_def world1_def demo_world_def client1_def get_http_def
        graphql_request_def split: sum.splits)

theorem get_account_normalizes_witness:
  "fst (get_account uk_client (demo_world account_body TransportError)) =
     Inr \<lparr>a_number = JStr ''A-1234'', a_balance = JNum (1234 / 100), a_name = JStr '''',
          a_status = JStr ''ACTIVE'', a_address = JStr ''1 High Street''\<rparr> \<and>
   fst (get_account japan_account_client (demo_world account_body TransportError)) =
     Inr \<lparr>a_number = JStr ''A-6CBDDE7D'', a_balance = JNum 1234, a_name = JStr '''',
          a_status = JStr ''ACTIVE'', a_address = JStr ''1 High Street''\<rparr>"
proof -
  let ?w = "demo_world account_body TransportError"
  let ?acc = "[(''balance'', JNum 1234), (''billingName'', JNull), (''status'', JStr ''ACTIVE''),
             (''properties'', JArr [JObj [(''address'', JStr ''1 High Street'')]])]"
  have e1: "ensure_account uk_client ?w = (Inr (JStr ''A-1234''), uk_client, ?w)"
    by (simp add: ensure_account_def uk_client_def OctopusClient_def)
  have g1: "graphql uk_client ?w GetAccount_query (JObj [(''account'', JStr ''A-1234'')]) =
      (Inr (JObj [(''account'', JObj ?acc)]), uk_client1,
       (uk_world1 account_body TransportError)\<lparr>sent := sent (uk_world1 account_body TransportError) @
          [graphql_request uk_client1 (JStr ''tok1'') GetAccount_query
             (JObj [(''account'', JStr ''A-1234'')])]\<rparr>)"
    by (simp add: graphql_uk_client) (simp add: account_body_def and_then_def)
  have e2: "ensure_account japan_account_client ?w =
      (Inr (JStr ''A-6CBDDE7D''), japan_account_client, ?w)"
    by (simp add: ensure_account_def japan_account_client_def)
  have g2: "graphql japan_account_client ?w GetAccount_query
        (JObj [(''account'', JStr ''A-6CBDDE7D'')]) =
      (Inr (JObj [(''account'', JObj ?acc)]), client1\<lparr>account := JStr ''A-6CBDDE7D''\<rparr>,
       (world1 account_body TransportError)\<lparr>sent := sent (world1 account_body TransportError) @
          [graphql_request client1 (JStr ''tok1'') GetAccount_query
             (JObj [(''account'', JStr ''A-6CBDDE7D'')])]\<rparr>)"
    by (simp add: graphql_japan_account_client) (simp add: account_body_def and_then_def)
  have r: "region uk_client = ''uk''" "region japan_account_client = ''japan''"
    by (simp_all add: fixtures japan_account_client_def)
  from get_account_normalizes [OF e1 g1, of ?acc "JNum 1234" JNull "JStr ''ACTIVE''"
      "JStr ''1 High Street''"] r
  obtain a where a: "get_account uk_client ?w = (Inr a, uk_client1,
       (uk_world1 account_body TransportError)\<lparr>sent := sent (uk_world1 account_body TransportError) @
          [graphql_request uk_client1 (JStr ''tok1'') GetAccount_query
             (JObj [(''account'', JStr ''A-1234'')])]\<rparr>)"
    "a_number a = JStr ''A-1234''" "a_balance a = JNum (1234 / 100)" "a_name a = JStr ''''"
    "a_status a = JStr ''ACTIVE''" "a_address a = JStr ''1 High Street''"
    by auto
  from get_account_normalizes [OF e2 g2, of ?acc "JNum 1234" JNull "JStr ''ACTIVE''"
      "JStr ''1 High Street''"] r
  obtain a' where a': "get_account japan_account_client ?w =
      (Inr a', client1\<lparr>account := JStr ''A-6CBDDE7D''\<rparr>,
       (world1 account_body TransportError)\<lparr>sent := sent (world1 account_body TransportError) @
          [graphql_request client1 (JStr ''tok1'') GetAccount_query
             (JObj [(''account'', JStr ''A-6CBDDE7D'')])]\<rparr>)"
    "a_number a' = JStr ''A-6CBDDE7D''" "a_balance a' = JNum 1234" "a_name a' = JStr ''''"
    "a_status a' = JStr ''ACTIVE''" "a_address a' = JStr ''1 High Street''"
    by auto
  from a a' show ?thesis
    by (cases a, cases a') simp
qed

section \<open>Tariffs when the REST request fails\<close>

lemma py_get_Inr_obj: "py_get v k d = Inr x \<Longrightarrow> \<exists>kvs. v = JObj kvs"
  by (cases v) auto

lemma py_get_obj_total: "\<exists>x. py_get (JObj kvs) k d = Inr x"
  by simp

lemma failed_rates_data:
  "receive out = Inl e \<Longrightarrow> is_http_error e \<Longrightarrow>
     rates_data_of out = Inr (JObj [(''results'', JArr [])])"
  by (simp add: rates_data_of_def except_http_error_def)

lemma failed_gas_unit_rate:
  "receive out = Inl e \<Longrightarrow> is_http_error e \<Longrightarrow> gas_unit_rate out = Inr (JNum 0)"
  by (simp add: gas_unit_rate_def except_http_error_def and_then_def)

lemma tariff_record_no_rates:
  "tariff_record (JObj td) pc (JObj [(''results'', JArr [])]) =
     Inr \<lparr>t_name = (case map_of td ''displayName'' of None \<Rightarrow> JStr ''Unknown'' | Some v \<Rightarrow> v),
          t_product_code = pc,
          t_standing_charge = (case map_of td ''standingCharge'' of None \<Rightarrow> JNum 0 | Some v \<Rightarrow> v),
          t_rates = [], t_off_peak_rate = JNull, t_peak_rate = JNull,
          t_off_peak_start = ''23:30'', t_off_peak_end = ''05:30''\<rparr>"
  by (simp add: tariff_record_def and_then_def)

lemma gas_tariff_record_obj:
  "gas_tariff_record (JObj td) pc rate =
     Inr \<lparr>gt_name = (case map_of td ''displayName'' of None \<Rightarrow> JStr ''Unknown'' | Some v \<Rightarrow> v),
          gt_product_code = pc,
          gt_standing_charge = (case map_of td ''standingCharge'' of None \<Rightarrow> JNum 0 | Some v \<Rightarrow> v),
          gt_unit_rate = rate\<rparr>"
  by (simp add: gas_tariff_record_def and_then_def)

text \<open>
  Claim C6. When \<^verbatim>\<open>get_tariff\<close> has the tariff of the first active agreement from the
  GraphQL response and the REST request for the unit rates fails with an
  \<^verbatim>\<open>httpx.HTTPError\<close>, be it raised by the request or by \<^verbatim>\<open>raise_for_status()\<close>, the
  method raises nothing and returns a \<^verbatim>\<open>Tariff\<close> with an empty dict of rates and
  neither a peak nor an off-peak rate. In the same situation \<^verbatim>\<open>get_gas_tariff\<close>
  returns a \<^verbatim>\<open>GasTariff\<close> whose unit rate is 0.
\<close>

theorem rest_failure_is_suppressed:
  "(graphql c w GetTariff_query (JObj [(''account'', account c)]) = (Inr data, c1, w1) \<longrightarrow>
    active_tariff ''electricityAgreements'' data = Inr (Some td) \<longrightarrow>
    py_get td ''productCode'' (JStr '''') = Inr pc \<longrightarrow>
    receive (remote w1 (length (sent w1)) (rates_request L c1 pc dno)) = Inl e \<longrightarrow>
    is_http_error e \<longrightarrow>
      (\<exists>t. fst (get_tariff L c w dno) = Inr (Some t) \<and> t_product_code t = pc \<and>
           t_rates t = [] \<and> t_off_peak_rate t = JNull \<and> t_peak_rate t = JNull)) \<and>
   (graphql c w GetGasTariff_query (JObj [(''account'', account c)]) = (Inr data', c1', w1') \<longrightarrow>
    active_tariff ''gasAgreements'' data' = Inr (Some td') \<longrightarrow>
    py_get td' ''productCode'' (JStr '''') = Inr pc' \<longrightarrow>
    receive (remote w1' (length (sent w1')) (gas_rates_request L c1' pc' dno)) = Inl e' \<longrightarrow>
    is_http_error e' \<longrightarrow>
      (\<exists>t. fst (get_gas_tariff L c w dno) = Inr (Some t) \<and> gt_product_code t = pc' \<and>
           gt_unit_rate t = JNum 0))"
proof (intro conjI impI)
  assume g: "graphql c w GetTariff_query (JObj [(''account'', account c)]) = (Inr data, c1, w1)"
    and a: "active_tariff ''electricityAgreements'' data = Inr (Some td)"
    and p: "py_get td ''productCode'' (JStr '''') = Inr pc"
    and r: "receive (remote w1 (length (sent w1)) (rates_request L c1 pc dno)) = Inl e"
    and h: "is_http_error e"
  from p obtain kvs where td: "td = JObj kvs"
    by (auto dest: py_get_Inr_obj)
  from g a p failed_rates_data [OF r h]
  have "fst (get_tariff L c w dno) =
      and_then (tariff_record td pc (JObj [(''results'', JArr [])])) (\<lambda>t. Inr (Some t))"
    by (simp add: get_tariff_def send_def and_then_def)
  then show "\<exists>t. fst (get_tariff L c w dno) = Inr (Some t) \<and> t_product_code t = pc \<and>
           t_rates t = [] \<and> t_off_peak_rate t = JNull \<and> t_peak_rate t = JNull"
    by (simp add: td tariff_record_no_rates and_then_def)
next
  assume g: "graphql c w GetGasTariff_query (JObj [(''account'', account c)]) =
      (Inr data', c1', w1')"
    and a: "active_tariff ''gasAgreements'' data' = Inr (Some td')"
    and p: "py_get td' ''productCode'' (JStr '''') = Inr pc'"
    and r: "receive (remote w1' (length (sent w1')) (gas_rates_request L c1' pc' dno)) = Inl e'"
    and h: "is_http_error e'"
  from p obtain kvs where td: "td' = JObj kvs"
    by (auto dest: py_get_Inr_obj)
  from g a p failed_gas_unit_rate [OF r h]
  have "fst (get_gas_tariff L c w dno) =
      and_then (gas_tariff_record td' pc' (JNum 0)) (\<lambda>t. Inr (Some t))"
    by (simp add: get_gas_tariff_def send_def and_then_def)
  then show "\<exists>t. fst (get_gas_tariff L c w dno) = Inr (Some t) \<and> gt_product_code t = pc' \<and>
           gt_unit_rate t = JNum 0"
    by (simp add: td gas_tariff_record_obj and_then_def)
qed

theorem rest_failure_is_suppressed_witness:
  "is_http_error HTTPError \<and> is_http_error HTTPStatusError \<and>
   t_rates (the (projr (fst (get_tariff demo_lib uk_client
      (demo_world tariff_body TransportError) ''J'')))) = [] \<and>
   gt_unit_rate (the (projr (fst (get_gas_tariff demo_lib uk_client
      (demo_world tariff_body (Response False None)) ''J'')))) = JNum 0"
proof -
  let ?kvs = "[(''displayName'', JStr ''Intelligent Octopus Go''),
           (''productCode'', JStr ''INTELLI-VAR-22-10-14''), (''standingCharge'', JNum 47.85)]"
  let ?data = "JObj [(''account'',
       JObj [(''electricityAgreements'', JArr [JObj [(''tariff'', tariff_data)]]),
             (''gasAgreements'', JArr [JObj [(''tariff'', tariff_data)]])])]"
  let ?pc = "JStr ''INTELLI-VAR-22-10-14''"
  have g: "graphql uk_client (demo_world tariff_body r) q (JObj [(''account'', account uk_client)]) =
      (Inr ?data, uk_client1,
       (uk_world1 tariff_body r)\<lparr>sent := sent (uk_world1 tariff_body r) @
          [graphql_request uk_client1 (JStr ''tok1'') q
             (JObj [(''account'', account uk_client)])]\<rparr>)" for r q
    by (simp add: graphql_uk_client) (simp add: tariff_body_def and_then_def)
  have a: "active_tariff ''electricityAgreements'' ?data = Inr (Some tariff_data)"
    "active_tariff ''gasAgreements'' ?data = Inr (Some tariff_data)"
    by (simp_all add: active_tariff_def and_then_def)
  have p: "py_get tariff_data ''productCode'' (JStr '''') = Inr ?pc"
    by (simp add: tariff_data_def)
  have r1: "receive (remote ((uk_world1 tariff_body TransportError)\<lparr>sent := s\<rparr>) n
      (rates_request demo_lib uk_client1 ?pc ''J'')) = Inl HTTPError" for s n
    by (simp add: uk_world1_def demo_world_def rates_request_def)
  have r2: "receive (remote ((uk_world1 tariff_body (Response False None))\<lparr>sent := s\<rparr>) n
      (gas_rates_request demo_lib uk_client1 ?pc ''J'')) = Inl HTTPStatusError" for s n
    by (simp add: uk_world1_def demo_world_def gas_rates_request_def)
  have h: "is_http_error HTTPError" "is_http_error HTTPStatusError"
    by simp_all
  note t1 = rest_failure_is_suppressed [THEN conjunct1, rule_format]
    and t2 = rest_failure_is_suppressed [THEN conjunct2, rule_format]
  from t1 [OF g a(1) p r1 h(1)]
  have x: "\<exists>t. fst (get_tariff demo_lib uk_client (demo_world tariff_body TransportError) ''J'') =
      Inr (Some t) \<and> t_rates t = []"
    by auto
  from t2 [OF g a(2) p r2 h(2)]
  have y: "\<exists>t. fst (get_gas_tariff demo_lib uk_client
      (demo_world tariff_body (Response False None)) ''J'') = Inr (Some t) \<and>
      gt_unit_rate t = JNum 0"
    by auto
  from x y h show ?thesis
    by auto
qed

section \<open>Gas readings\<close>

lemma collect_singletons:
  "collect f xs = Inr ys \<Longrightarrow> (\<And>x zs. f x = Inr zs \<Longrightarrow> length zs = 1) \<Longrightarrow>
     length ys = length xs \<and> (\<forall>i<length xs. f (xs ! i) = Inr [ys ! i])"
proof (induction xs arbitrary: ys)
  case Nil
  then show ?case by simp
next
  case (Cons x xs)
  from Cons.prems(1) obtain zs ys' where z: "f x = Inr zs" "collect f xs = Inr ys'" "ys = zs @ ys'"
    by (auto split: sum.splits)
  from Cons.prems(2) [OF z(1)] obtain y where y: "zs = [y]"
    by (cases zs) auto
  from Cons.IH [OF z(2) Cons.prems(2)]
  have ih: "length ys' = length xs" "\<forall>i<length xs. f (xs ! i) = Inr [ys' ! i]"
    by auto
  show ?case
  proof (intro conjI allI impI)
    show "length ys = length (x # xs)"
      using z y ih by simp
    fix i
    assume "i < length (x # xs)"
    then show "f ((x # xs) ! i) = Inr [ys ! i]"
      using z y ih by (cases i) auto
  qed
qed

lemma gas_reading_single: "gas_reading L r = Inr zs \<Longrightarrow> length zs = 1"
  by (auto simp: gas_reading_def and_then_def split: sum.splits if_splits)

lemma gas_reading_number:
  "gas_reading L r = Inr [g] \<Longrightarrow> py_item r ''consumption'' = Inr (JNum v) \<Longrightarrow>
     (if v < 10 then g_kwh g = JNum (v * 11.1868) \<and> g_m3 g = JNum v
      else g_kwh g = JNum v \<and> g_m3 g = JNull)"
  by (auto simp: gas_reading_def and_then_def py_less_def py_mul_def M3_TO_KWH_def
           split: sum.splits if_splits)

text \<open>
  Claim C8. Take a reading \<open>r\<close> of the REST response whose \<^verbatim>\<open>consumption\<close> is the
  number \<open>v\<close>, and whose two timestamps parse. Its record has \<^verbatim>\<open>kwh\<close> \<open>v * 11.1868\<close> and
  \<^verbatim>\<open>m3\<close> \<open>v\<close> if \<open>v < 10\<close>, and \<^verbatim>\<open>kwh\<close> \<open>v\<close> and \<^verbatim>\<open>m3\<close> \<^verbatim>\<open>None\<close> otherwise:
  the magnitude decides, nothing else of the reading or of the client is asked.
  And when \<^verbatim>\<open>get_gas_consumption\<close> returns, it has sent one request, the response
  parsed to a dict, and the list returned has one record for each entry of its
  \<^verbatim>\<open>results\<close>, in their order, every record made in this way.
\<close>

theorem gas_readings_by_magnitude:
  "(py_item r ''consumption'' = Inr (JNum v) \<longrightarrow>
    parse_time L r ''interval_start'' = Inr s \<longrightarrow>
    parse_time L r ''interval_end'' = Inr e \<longrightarrow>
      gas_reading L r =
        Inr [\<lparr>g_start = s, g_end = e, g_kwh = JNum (if v < 10 then v * 11.1868 else v),
              g_m3 = (if v < 10 then JNum v else JNull)\<rparr>]) \<and>
   (get_gas_consumption L c w periods start end' = (Inr rs, c', w') \<longrightarrow>
      (\<exists>req data listed results.
         sent w' = sent w @ [req] \<and> receive (remote w (length (sent w)) req) = Inr data \<and>
         py_get data ''results'' (JArr []) = Inr listed \<and> py_iter listed = Inr results \<and>
         length rs = length results \<and>
         (\<forall>i<length rs. \<forall>v. py_item (results ! i) ''consumption'' = Inr (JNum v) \<longrightarrow>
            (if v < 10 then g_kwh (rs ! i) = JNum (v * 11.1868) \<and> g_m3 (rs ! i) = JNum v
             else g_kwh (rs ! i) = JNum v \<and> g_m3 (rs ! i) = JNull))))"
proof (intro conjI impI)
  assume "py_item r ''consumption'' = Inr (JNum v)" "parse_time L r ''interval_start'' = Inr s"
    "parse_time L r ''interval_end'' = Inr e"
  then show "gas_reading L r =
        Inr [\<lparr>g_start = s, g_end = e, g_kwh = JNum (if v < 10 then v * 11.1868 else v),
              g_m3 = (if v < 10 then JNum v else JNull)\<rparr>]"
    by (simp add: gas_reading_def and_then_def py_less_def py_mul_def M3_TO_KWH_def)
next
  assume g: "get_gas_consumption L c w periods start end' = (Inr rs, c', w')"
  let ?req = "Get (REST_API_URL @ ''/gas-meter-points/'' @ str_of L (gas_mprn c) @
      ''/meters/'' @ str_of L (gas_meter_serial c) @ ''/consumption/'')
      (consumption_params L periods start end') (api_key c)"
  from g obtain data where d: "receive (remote w (length (sent w)) ?req) = Inr data"
    and s: "sent w' = sent w @ [?req]"
    and c: "and_then (and_then (py_get data ''results'' (JArr [])) py_iter)
        (collect (gas_reading L)) = Inr rs"
    by (auto simp: get_gas_consumption_def send_def split: if_splits sum.splits)
  from c obtain listed results where l: "py_get data ''results'' (JArr []) = Inr listed"
    "py_iter listed = Inr results" "collect (gas_reading L) results = Inr rs"
    by (auto simp: and_then_def split: sum.splits)
  from collect_singletons [OF l(3) gas_reading_single]
  have n: "length rs = length results"
    and each: "\<forall>i<length results. gas_reading L (results ! i) = Inr [rs ! i]"
    by auto
  have "\<forall>i<length rs. \<forall>v. py_item (results ! i) ''consumption'' = Inr (JNum v) \<longrightarrow>
      (if v < 10 then g_kwh (rs ! i) = JNum (v * 11.1868) \<and> g_m3 (rs ! i) = JNum v
       else g_kwh (rs ! i) = JNum v \<and> g_m3 (rs ! i) = JNull)"
    using each n gas_reading_number by metis
  with d s l n show "\<exists>req data listed results.
         sent w' = sent w @ [req] \<and> receive (remote w (length (sent w)) req) = Inr data \<and>
         py_get data ''results'' (JArr []) = Inr listed \<and> py_iter listed = Inr results \<and>
         length rs = length results \<and>
         (\<forall>i<length rs. \<forall>v. py_item (results ! i) ''consumption'' = Inr (JNum v) \<longrightarrow>
            (if v < 10 then g_kwh (rs ! i) = JNum (v * 11.1868) \<and> g_m3 (rs ! i) = JNum v
             else g_kwh (rs ! i) = JNum v \<and> g_m3 (rs ! i) = JNull))"
    by blast
qed

lemmas parse_defs = parse_time_def py_fromisoformat_def and_then_def demo_lib_def

lemma get_gas_consumption_example:
  "fst (get_gas_consumption demo_lib uk_gas_client
      (demo_world JNull (Response True (Some gas_body))) 48 None None) =
     Inr [\<lparr>g_start = Aware 0 0, g_end = Aware 1800000000 0, g_kwh = JNum (1 / 2 * 11.1868),
           g_m3 = JNum (1 / 2)\<rparr>,
          \<lparr>g_start = Aware 1800000000 0, g_end = Aware 86400000000 0, g_kwh = JNum 12,
           g_m3 = JNull\<rparr>]"
  by (simp add: get_gas_consumption_def uk_gas_client_def uk_client_def OctopusClient_def
        demo_world_def send_def gas_body_def gas_reading_def py_less_def py_mul_def
        M3_TO_KWH_def parse_defs)

theorem gas_readings_by_magnitude_witness:
  "gas_reading demo_lib
     (JObj [(''consumption'', JNum (1 / 2)),
            (''interval_start'', JStr ''2024-01-01T00:00:00Z''),
            (''interval_end'', JStr ''2024-01-01T00:30:00Z'')]) =
     Inr [\<lparr>g_start = Aware 0 0, g_end = Aware 1800000000 0, g_kwh = JNum 5.5934,
           g_m3 = JNum (1 / 2)\<rparr>] \<and>
   gas_reading demo_lib
     (JObj [(''consumption'', JNum 12),
            (''interval_start'', JStr ''2024-01-01T00:30:00Z''),
            (''interval_end'', JStr ''2024-01-02T00:00:00Z'')]) =
     Inr [\<lparr>g_start = Aware 1800000000 0, g_end = Aware 86400000000 0, g_kwh = JNum 12,
           g_m3 = JNull\<rparr>] \<and>
   length (projr (fst (get_gas_consumption demo_lib uk_gas_client
      (demo_world JNull (Response True (Some gas_body))) 48 None None))) = 2"
proof -
  let ?r1 = "JObj [(''consumption'', JNum (1 / 2)),
            (''interval_start'', JStr ''2024-01-01T00:00:00Z''),
            (''interval_end'', JStr ''2024-01-01T00:30:00Z'')]"
  let ?r2 = "JObj [(''consumption'', JNum 12),
            (''interval_start'', JStr ''2024-01-01T00:30:00Z''),
            (''interval_end'', JStr ''2024-01-02T00:00:00Z'')]"
  note t1 = gas_readings_by_magnitude [THEN conjunct1, rule_format]
    and t2 = gas_readings_by_magnitude [THEN conjunct2, rule_format]
  have p: "parse_time demo_lib ?r1 ''interval_start'' = Inr (Aware 0 0)"
    "parse_time demo_lib ?r1 ''interval_end'' = Inr (Aware 1800000000 0)"
    "parse_time demo_lib ?r2 ''interval_start'' = Inr (Aware 1800000000 0)"
    "parse_time demo_lib ?r2 ''interval_end'' = Inr (Aware 86400000000 0)"
    by (simp_all add: parse_defs)
  have v: "py_item ?r1 ''consumption'' = Inr (JNum (1 / 2))"
    "py_item ?r2 ''consumption'' = Inr (JNum 12)"
    by simp_all
  from t1 [OF v(1) p(1) p(2)] have a: "gas_reading demo_lib ?r1 =
     Inr [\<lparr>g_start = Aware 0 0, g_end = Aware 1800000000 0, g_kwh = JNum 5.5934,
           g_m3 = JNum (1 / 2)\<rparr>]"
    by simp
  from t1 [OF v(2) p(3) p(4)] have b: "gas_reading demo_lib ?r2 =
     Inr [\<lparr>g_start = Aware 1800000000 0, g_end = Aware 86400000000 0, g_kwh = JNum 12,
           g_m3 = JNull\<rparr>]"
    by simp
  let ?w = "demo_world JNull (Response True (Some gas_body))"
  let ?g = "get_gas_consumption demo_lib uk_gas_client ?w 48 None None"
  have "?g = (Inr (projr (fst ?g)), fst (snd ?g), snd (snd ?g))"
    using get_gas_consumption_example by (cases ?g) auto
  from t2 [OF this] obtain req data listed results where
    r: "receive (remote ?w (length (sent ?w)) req) = Inr data"
      "py_get data ''results'' (JArr []) = Inr listed" "py_iter listed = Inr results"
      "length (projr (fst ?g)) = length results"
      "sent (snd (snd ?g)) = sent ?w @ [req]"
    by blast
  have "req = Get (REST_API_URL @ ''/gas-meter-points/'' @ ''1234567890'' @
      ''/meters/'' @ ''G4P01234567800'' @ ''/consumption/'')
      (consumption_params demo_lib 48 None None) (JStr ''sk_live_xxx'')"
    using r(5)
    by (simp add: get_gas_consumption_def uk_gas_client_def uk_client_def OctopusClient_def
        demo_world_def send_def demo_lib_def)
  with r have "length (projr (fst ?g)) = 2"
    by (auto simp: demo_world_def gas_body_def)
  with a b show ?thesis
    by simp
qed

section \<open>Daily totals\<close>













section \<open>Half-hourly readings in Japan\<close>

lemma reading_japan_end:
  "reading_japan L r = Inr c \<Longrightarrow> c_end c = dt_add (c_start c) (timedelta_minutes 30)"
  by (auto simp: reading_japan_def and_then_def split: sum.splits)

text \<open>A reading that raises one of the three exceptions of line 352 is left out.\<close>

lemma try_reading_skips:
  "reading_japan L r = Inl e \<Longrightarrow> e = ValueError \<or> e = KeyError \<or> e = TypeError \<Longrightarrow>
     try_reading L r = Inr []"
  by (auto simp: try_reading_def)

text \<open>
  A \<^verbatim>\<open>startAt\<close> that is not a string has no method \<^verbatim>\<open>replace\<close>: the
  \<^verbatim>\<open>AttributeError\<close> is none of the three, and leaves the loop.
\<close>

lemma try_reading_escapes:
  "py_item r ''startAt'' = Inr v \<Longrightarrow> py_replace_Z v = Inl AttributeError \<Longrightarrow>
     try_reading L r = Inl AttributeError"
  by (simp add: try_reading_def reading_japan_def parse_time_def and_then_def)

lemma try_reading_end:
  "try_reading L r = Inr zs \<Longrightarrow>
     list_all (\<lambda>c. c_end c = dt_add (c_start c) (timedelta_minutes 30)) zs"
  by (auto simp: try_reading_def reading_japan_end split: sum.splits if_splits)

lemma collect_all:
  "collect f xs = Inr ys \<Longrightarrow> (\<And>x zs. f x = Inr zs \<Longrightarrow> list_all P zs) \<Longrightarrow> list_all P ys"
proof (induction xs arbitrary: ys)
  case Nil
  then show ?case by simp
next
  case (Cons x xs)
  from Cons.prems(1) obtain zs ys' where z: "f x = Inr zs" "collect f xs = Inr ys'" "ys = zs @ ys'"
    by (auto split: sum.splits)
  from Cons.prems(2) [OF z(1)] Cons.IH [OF z(2) Cons.prems(2)] z(3) show ?case
    by simp
qed

lemma readings_japan_end:
  assumes "readings_japan L data = Inr cs"
  shows "list_all (\<lambda>c. c_end c = dt_add (c_start c) (timedelta_minutes 30)) cs"
proof -
  let ?P = "\<lambda>c. c_end c = dt_add (c_start c) (timedelta_minutes 30)"
  have points: "list_all ?P zs"
    if "and_then (and_then (py_get sp ''halfHourlyReadings'' (JArr [])) py_iter)
          (collect (try_reading L)) = Inr zs" for sp zs
    using that
    by (auto simp: and_then_def split: sum.splits intro: collect_all [OF _ try_reading_end])
  have props: "list_all ?P zs"
    if "and_then (and_then (py_get pr ''electricitySupplyPoints'' (JArr [])) py_iter)
          (collect (\<lambda>supply_point.
             and_then (and_then (py_get supply_point ''halfHourlyReadings'' (JArr [])) py_iter)
               (collect (try_reading L)))) = Inr zs" for pr zs
    using that
    by (auto simp: and_then_def split: sum.splits intro: collect_all [OF _ points])
  from assms show ?thesis
    unfolding readings_japan_def
    by (auto simp: and_then_def split: sum.splits intro: collect_all [OF _ props])
qed

lemma sorted_by_start_sorted:
  "sorted_by_start cs = Inr ys \<Longrightarrow>
     sorted (map (\<lambda>c. instant (c_start c)) ys) \<and> set ys = set cs"
  by (auto simp: sorted_by_start_def split: if_splits)

text \<open>
  What holds of the list that \<^verbatim>\<open>_get_consumption_japan\<close> returns: every record ends
  30 minutes after it starts, and the records are in ascending order of their starts.
\<close>

theorem consumption_japan_sorted_half_hours:
  "get_consumption_japan L c w periods start end' = (Inr cs, c', w') \<Longrightarrow>
     list_all (\<lambda>x. c_end x = dt_add (c_start x) (timedelta_minutes 30)) cs \<and>
     sorted (map (\<lambda>x. instant (c_start x)) cs)"
proof -
  assume "get_consumption_japan L c w periods start end' = (Inr cs, c', w')"
  then obtain data rs where r: "readings_japan L data = Inr rs" and s: "sorted_by_start rs = Inr cs"
    by (auto simp: get_consumption_japan_def and_then_def split: prod.splits sum.splits option.splits)
  from sorted_by_start_sorted [OF s] have "set cs = set rs"
    and o: "sorted (map (\<lambda>x. instant (c_start x)) cs)"
    by simp_all
  with readings_japan_end [OF r] have "list_all (\<lambda>x. c_end x = dt_add (c_start x) (timedelta_minutes 30)) cs"
    by (simp add: list_all_iff)
  with o show ?thesis
    by simp
qed

lemmas japan_defs = get_consumption_japan_def ensure_account_def graphql_def graphql_request_def
  py_or_def readings_japan_def try_reading_def reading_japan_def sorted_by_start_def

lemma get_consumption_japan_example:
  "fst (get_consumption_japan demo_lib japan_account_client
      (demo_world readings_body TransportError) 48 None None) =
   Inr [\<lparr>c_start = Aware 0 0, c_end = Aware 1800000000 0, c_kwh = JNum (1 / 4),
          c_cost_estimate = Some (JNum (1 / 2))\<rparr>,
        \<lparr>c_start = Aware 1800000000 0, c_end = Aware 3600000000 0, c_kwh = JNum (1 / 2),
          c_cost_estimate = Some (JNum 0)\<rparr>]"
  by (simp add: japan_defs japan_account_client_def fixtures token_defs readings_body_def
        parse_defs)

theorem consumption_japan_sorted_half_hours_witness:
  "fst (get_consumption_japan demo_lib japan_account_client
      (demo_world readings_body TransportError) 48 None None) =
   Inr [\<lparr>c_start = Aware 0 0, c_end = Aware 1800000000 0, c_kwh = JNum (1 / 4),
          c_cost_estimate = Some (JNum (1 / 2))\<rparr>,
        \<lparr>c_start = Aware 1800000000 0, c_end = Aware 3600000000 0, c_kwh = JNum (1 / 2),
          c_cost_estimate = Some (JNum 0)\<rparr>] \<and>
   sorted (map (\<lambda>x. instant (c_start x))
     [\<lparr>c_start = Aware 0 0, c_end = Aware 1800000000 0, c_kwh = JNum (1 / 4),
          c_cost_estimate = Some (JNum (1 / 2))\<rparr>,
        \<lparr>c_start = Aware 1800000000 0, c_end = Aware 3600000000 0, c_kwh = JNum (1 / 2),
          c_cost_estimate = Some (JNum 0)\<rparr>])"
proof -
  let ?g = "get_consumption_japan demo_lib japan_account_client
      (demo_world readings_body TransportError) 48 None None"
  obtain c1 w1 where "?g = (Inr [\<lparr>c_start = Aware 0 0, c_end = Aware 1800000000 0,
          c_kwh = JNum (1 / 4), c_cost_estimate = Some (JNum (1 / 2))\<rparr>,
        \<lparr>c_start = Aware 1800000000 0, c_end = Aware 3600000000 0, c_kwh = JNum (1 / 2),
          c_cost_estimate = Some (JNum 0)\<rparr>], c1, w1)"
    using get_consumption_japan_example by (cases ?g) auto
  from consumption_japan_sorted_half_hours [OF this] get_consumption_japan_example
  show ?thesis
    by blast
qed

text \<open>
  Claim C9. The claim holds of the list returned, as the theorem above shows, and a
  reading that raises \<^verbatim>\<open>ValueError\<close>, \<^verbatim>\<open>KeyError\<close> or \<^verbatim>\<open>TypeError\<close> is skipped. It
  fails for a reading whose \<^verbatim>\<open>startAt\<close> is null: \<^verbatim>\<open>None.replace\<close> raises
  \<^verbatim>\<open>AttributeError\<close>, which line 352 does not catch, and the call fails where the claim
  has the reading skipped. Here the response holds this one reading.
\<close>

theorem null_startAt_fails_the_call:
  "fst (get_consumption_japan demo_lib japan_account_client
      (demo_world null_start_body TransportError) 48 None None) = Inl AttributeError"
  by (simp add: japan_defs japan_account_client_def fixtures token_defs null_start_body_def
        parse_defs)

section \<open>What the client keeps\<close>

lemma same_settings_account [simp]: "same_settings c (c'\<lparr>account := n\<rparr>) = same_settings c c'"
  by (simp add: same_settings_def)

lemma get_token_keeps:
  "get_token c w = (r, c', w') \<Longrightarrow> same_settings c c' \<and> account c' = account c"
  by (rule get_token_frame)

lemma ensure_account_keeps:
  "ensure_account c w = (r, c', w') \<Longrightarrow>
     same_settings c c' \<and>
     (c' = c \<and> w' = w \<or> \<not> truthy (account c) \<and> (account c' = account c \<or> r = Inr (account c')))"
proof -
  assume e: "ensure_account c w = (r, c', w')"
  obtain r1 c1 w1 where g: "graphql c w accountViewer_query JNull = (r1, c1, w1)"
    by (cases "graphql c w accountViewer_query JNull") auto
  from e g graphql_frame [OF g] have
    "c' = c \<and> w' = w \<or> \<not> truthy (account c) \<and> (account c' = account c \<or> r = Inr (account c'))"
    by (auto simp: ensure_account_def split: if_splits sum.splits)
  with ensure_account_frame [OF e] show ?thesis
    by simp
qed

lemma get_account_keeps:
  "get_account c w = (r, c', w') \<Longrightarrow>
     same_settings c c' \<and> (account c' = account c \<or> \<not> truthy (account c))"
proof -
  assume a: "get_account c w = (r, c', w')"
  obtain r1 c1 w1 where e: "ensure_account c w = (r1, c1, w1)"
    by (cases "ensure_account c w") auto
  obtain n where n: "r1 = Inl n \<and> c' = c1 \<or>
      (\<exists>num r2 w2. graphql c1 w1 GetAccount_query (JObj [(''account'', num)]) = (r2, c', w2))"
    using a e by (auto simp: get_account_def split: sum.splits prod.splits)
  then have "same_settings c1 c' \<and> account c' = account c1"
    using graphql_frame by auto
  with ensure_account_keeps [OF e] show ?thesis
    by (auto intro: same_settings_trans)
qed

lemma get_consumption_japan_keeps:
  "get_consumption_japan L c w n s e = (r, c', w') \<Longrightarrow>
     same_settings c c' \<and> (account c' = account c \<or> \<not> truthy (account c))"
proof -
  assume a: "get_consumption_japan L c w n s e = (r, c', w')"
  obtain r1 c1 w1 where e: "ensure_account c w = (r1, c1, w1)"
    by (cases "ensure_account c w") auto
  from a e have "c' = c1 \<or> (\<exists>w2 q v r2 w3. graphql c1 w2 q v = (r2, c', w3))"
    by (auto simp: get_consumption_japan_def split: sum.splits prod.splits option.splits)
  then have "same_settings c1 c' \<and> account c' = account c1"
    using graphql_frame by auto
  with ensure_account_keeps [OF e] show ?thesis
    by (auto intro: same_settings_trans)
qed

lemma get_consumption_uk_keeps:
  "get_consumption_uk L c w n s e = (r, c', w') \<Longrightarrow> c' = c \<or> c' = get_http c"
  by (auto simp: get_consumption_uk_def send_def split: if_splits sum.splits)

lemma get_consumption_keeps:
  "get_consumption L c w n s e = (r, c', w') \<Longrightarrow>
     same_settings c c' \<and> (account c' = account c \<or> \<not> truthy (account c))"
  using get_consumption_japan_keeps [of L c w n s e r c' w']
    get_consumption_uk_keeps [of L c w n s e r c' w']
  by (auto simp: get_consumption_def split: if_splits)

lemma get_daily_usage_keeps:
  "get_daily_usage L c w days = (r, c', w') \<Longrightarrow>
     same_settings c c' \<and> (account c' = account c \<or> \<not> truthy (account c))"
proof -
  assume "get_daily_usage L c w days = (r, c', w')"
  then obtain r1 where "get_consumption L c w (days * 48) None None = (r1, c', w')"
    by (auto simp: get_daily_usage_def split: prod.splits sum.splits)
  then show ?thesis
    by (rule get_consumption_keeps)
qed

lemma get_gas_consumption_keeps:
  "get_gas_consumption L c w n s e = (r, c', w') \<Longrightarrow> c' = c \<or> c' = get_http c"
  by (auto simp: get_gas_consumption_def send_def split: if_splits sum.splits)

lemma get_gas_tariff_keeps:
  "get_gas_tariff L c w dno = (r, c', w') \<Longrightarrow> same_settings c c' \<and> account c' = account c"
proof -
  assume a: "get_gas_tariff L c w dno = (r, c', w')"
  obtain r1 c1 w1 where g:
    "graphql c w GetGasTariff_query (JObj [(''account'', account c)]) = (r1, c1, w1)"
    by (cases "graphql c w GetGasTariff_query (JObj [(''account'', account c)])") auto
  from a g have "c' = c1 \<or> c' = get_http c1"
    by (auto simp: get_gas_tariff_def send_def split: sum.splits option.splits)
  with graphql_frame [OF g] show ?thesis
    by (auto simp: same_settings_def)
qed

lemma get_tariff_keeps:
  "get_tariff L c w dno = (r, c', w') \<Longrightarrow> same_settings c c' \<and> account c' = account c"
proof -
  assume a: "get_tariff L c w dno = (r, c', w')"
  obtain r1 c1 w1 where g:
    "graphql c w GetTariff_query (JObj [(''account'', account c)]) = (r1, c1, w1)"
    by (cases "graphql c w GetTariff_query (JObj [(''account'', account c)])") auto
  from a g have "c' = c1 \<or> c' = get_http c1"
    by (auto simp: get_tariff_def send_def split: sum.splits option.splits)
  with graphql_frame [OF g] show ?thesis
    by (auto simp: same_settings_def)
qed

lemma get_daily_gas_usage_keeps:
  "get_daily_gas_usage L c w days = (r, c', w') \<Longrightarrow> c' = c \<or> c' = get_http c"
proof -
  assume "get_daily_gas_usage L c w days = (r, c', w')"
  then obtain r1 where "get_gas_consumption L c w (days * 48) None None = (r1, c', w')"
    by (auto simp: get_daily_gas_usage_def split: prod.splits sum.splits)
  then show ?thesis
    by (rule get_gas_consumption_keeps)
qed

lemma get_dispatches_keeps:
  "get_dispatches L c w = (r, c', w') \<Longrightarrow> same_settings c c' \<and> account c' = account c"
proof -
  assume "get_dispatches L c w = (r, c', w')"
  then obtain r1 w1 where
    "graphql c w GetDispatches_query (JObj [(''account'', account c)]) = (r1, c', w1)"
    by (auto simp: get_dispatches_def split: prod.splits sum.splits)
  then show ?thesis
    by (rule graphql_frame)
qed

lemma get_dispatch_status_keeps:
  "get_dispatch_status L T c w = (r, c', w') \<Longrightarrow> same_settings c c' \<and> account c' = account c"
proof -
  assume "get_dispatch_status L T c w = (r, c', w')"
  then obtain r1 w1 where "get_dispatches L c w = (r1, c', w1)"
    by (auto simp: get_dispatch_status_def split: prod.splits sum.splits)
  then show ?thesis
    by (rule get_dispatches_keeps)
qed

lemma get_completed_dispatches_keeps:
  "get_completed_dispatches L c w limit = (r, c', w') \<Longrightarrow>
     same_settings c c' \<and> account c' = account c"
proof -
  assume "get_completed_dispatches L c w limit = (r, c', w')"
  then obtain r1 w1 where
    "graphql c w GetCompletedDispatches_query (JObj [(''account'', account c)]) = (r1, c', w1)"
    by (auto simp: get_completed_dispatches_def split: prod.splits sum.splits)
  then show ?thesis
    by (rule graphql_frame)
qed

lemma get_saving_sessions_keeps:
  "get_saving_sessions L c w = (r, c', w') \<Longrightarrow> same_settings c c' \<and> account c' = account c"
proof -
  assume "get_saving_sessions L c w = (r, c', w')"
  then obtain r1 w1 where
    "graphql c w GetSavingSessions_query (JObj [(''account'', account c)]) = (r1, c', w1)"
    by (auto simp: get_saving_sessions_def split: prod.splits sum.splits)
  then show ?thesis
    by (rule graphql_frame)
qed

lemma discover_meter_device_keeps:
  "discover_meter_device c w = (r, c', w') \<Longrightarrow> same_settings c c' \<and> account c' = account c"
proof -
  assume "discover_meter_device c w = (r, c', w')"
  then obtain r1 w1 where
    "graphql c w DiscoverDevices_query (JObj [(''account'', account c)]) = (r1, c', w1)"
    by (auto simp: discover_meter_device_def split: prod.splits sum.splits)
  then show ?thesis
    by (rule graphql_frame)
qed

lemma live_power_for_keeps:
  "live_power_for L T c w device_id = (r, c', w') \<Longrightarrow>
     same_settings c c' \<and> account c' = account c"
proof -
  assume "live_power_for L T c w device_id = (r, c', w')"
  then obtain r1 w0 q v w1 where "graphql c w0 q v = (r1, c', w1)"
    by (auto simp: live_power_for_def split: prod.splits sum.splits)
  then show ?thesis
    by (rule graphql_frame)
qed

lemma get_live_power_keeps:
  "get_live_power L T c w device_id = (r, c', w') \<Longrightarrow>
     same_settings c c' \<and> account c' = account c"
proof -
  assume a: "get_live_power L T c w device_id = (r, c', w')"
  obtain r1 c1 w1 where d: "discover_meter_device c w = (r1, c1, w1)"
    by (cases "discover_meter_device c w") auto
  from a d have "live_power_for L T c w device_id = (r, c', w') \<or> c' = c1 \<or>
      (\<exists>found. live_power_for L T c1 w1 found = (r, c', w'))"
    by (auto simp: get_live_power_def split: if_splits sum.splits option.splits)
  with discover_meter_device_keeps [OF d] live_power_for_keeps show ?thesis
    by (metis same_settings_trans)
qed

lemma get_smart_devices_keeps:
  "get_smart_devices c w = (r, c', w') \<Longrightarrow> same_settings c c' \<and> account c' = account c"
proof -
  assume "get_smart_devices c w = (r, c', w')"
  then obtain r1 w1 where
    "graphql c w GetDevices_query (JObj [(''account'', account c)]) = (r1, c', w1)"
    by (auto simp: get_smart_devices_def split: prod.splits sum.splits)
  then show ?thesis
    by (rule graphql_frame)
qed

lemma get_current_rate_sends_nothing: "sent (snd (get_current_rate T w tariff)) = sent w"
  by (simp add: get_current_rate_def now_def)

text \<open>A query that succeeds has been sent, and what it returns is in the response to it.\<close>

lemma graphql_asks_the_service:
  "graphql c w q v = (Inr d, c', w') \<Longrightarrow>
     \<exists>tok pre data. sent w' = pre @ [graphql_request c tok q v] \<and>
       length (sent w) \<le> length pre \<and>
       receive (remote w (length pre) (graphql_request c tok q v)) = Inr data \<and>
       py_item data ''data'' = Inr d"
proof -
  assume g: "graphql c w q v = (Inr d, c', w')"
  obtain r1 c1 w1 where t: "get_token c w = (r1, c1, w1)"
    by (cases "get_token c w") auto
  from get_token_frame [OF t] have "graphql_url c1 = graphql_url c"
    by (simp add: same_settings_def)
  then have gr: "graphql_request c1 tok q v = graphql_request c tok q v" for tok
    by (simp add: graphql_request_def)
  from g t obtain tok data where
    s: "sent w' = sent w1 @ [graphql_request c tok q v]"
    and r: "receive (remote w1 (length (sent w1)) (graphql_request c tok q v)) = Inr data"
    and d: "py_item data ''data'' = Inr d"
    by (auto simp: graphql_def send_def gr split: if_splits sum.splits)
  from get_token_world [OF t] have "remote w1 = remote w" "length (sent w) \<le> length (sent w1)"
    by auto
  with s r d show ?thesis
    by auto
qed

text \<open>
  Claim C7, as the code has it. The client does keep two things of what the service
  answers: the bearer token with its refresh token and expiry, and the account number
  that \<^verbatim>\<open>_ensure_account\<close> discovers when none is set. Apart from these and the HTTP
  handle no method of the client changes a field of it: region, credentials, meter
  identifiers and URL stay. The account number changes only when none was set, the
  methods that do not call \<^verbatim>\<open>_ensure_account\<close> leave it alone, and the three REST
  methods for consumption leave the token alone too; \<^verbatim>\<open>get_current_rate\<close> reads the
  clock and sends nothing. Nothing else is kept: a query that succeeds has been sent to
  the service in this very call and returns the data of the response to it.
\<close>

theorem client_keeps_token_and_account_only:
  "(get_token c w = (r1, c', w') \<longrightarrow> same_settings c c' \<and> account c' = account c) \<and>
   (graphql c w q v = (r2, c', w') \<longrightarrow> same_settings c c' \<and> account c' = account c) \<and>
   (graphql c w q v = (Inr d, c', w') \<longrightarrow>
      (\<exists>tok pre data. sent w' = pre @ [graphql_request c tok q v] \<and>
         length (sent w) \<le> length pre \<and>
         receive (remote w (length pre) (graphql_request c tok q v)) = Inr data \<and>
         py_item data ''data'' = Inr d)) \<and>
   (ensure_account c w = (r3, c', w') \<longrightarrow>
      same_settings c c' \<and>
      (c' = c \<and> w' = w \<or>
       \<not> truthy (account c) \<and> (account c' = account c \<or> r3 = Inr (account c')))) \<and>
   (get_account c w = (r4, c', w') \<longrightarrow>
      same_settings c c' \<and> (account c' = account c \<or> \<not> truthy (account c))) \<and>
   (get_consumption L c w n s e = (r5, c', w') \<longrightarrow>
      same_settings c c' \<and> (account c' = account c \<or> \<not> truthy (account c))) \<and>
   (get_daily_usage L c w days = (r6, c', w') \<longrightarrow>
      same_settings c c' \<and> (account c' = account c \<or> \<not> truthy (account c))) \<and>
   (get_consumption_uk L c w n s e = (r7, c', w') \<longrightarrow> c' = c \<or> c' = get_http c) \<and>
   (get_gas_consumption L c w n s e = (r8, c', w') \<longrightarrow> c' = c \<or> c' = get_http c) \<and>
   (get_gas_tariff L c w dno = (r9, c', w') \<longrightarrow> same_settings c c' \<and> account c' = account c) \<and>
   (get_tariff L c w dno = (r10, c', w') \<longrightarrow> same_settings c c' \<and> account c' = account c) \<and>
   (get_daily_gas_usage L c w days = (r11, c', w') \<longrightarrow> c' = c \<or> c' = get_http c) \<and>
   (get_dispatches L c w = (r12, c', w') \<longrightarrow> same_settings c c' \<and> account c' = account c) \<and>
   (get_dispatch_status L T c w = (r13, c', w') \<longrightarrow>
      same_settings c c' \<and> account c' = account c) \<and>
   (get_completed_dispatches L c w limit = (r14, c', w') \<longrightarrow>
      same_settings c c' \<and> account c' = account c) \<and>
   (get_saving_sessions L c w = (r15, c', w') \<longrightarrow>
      same_settings c c' \<and> account c' = account c) \<and>
   (discover_meter_device c w = (r16, c', w') \<longrightarrow>
      same_settings c c' \<and> account c' = account c) \<and>
   (get_live_power L T c w device_id = (r17, c', w') \<longrightarrow>
      same_settings c c' \<and> account c' = account c) \<and>
   (get_smart_devices c w = (r18, c', w') \<longrightarrow> same_settings c c' \<and> account c' = account c) \<and>
   sent (snd (get_current_rate T w tariff)) = sent w \<and>
   get_http c = c\<lparr>http := Some ()\<rparr> \<and> aenter c = c\<lparr>http := Some ()\<rparr> \<and>
   aexit c = c\<lparr>http := None\<rparr>"
proof (intro conjI impI)
  show "get_http c = c\<lparr>http := Some ()\<rparr>"
    by (cases "http c") (simp_all add: get_http_def)
  show "aexit c = c\<lparr>http := None\<rparr>"
    by (cases "http c") (simp_all add: aexit_def)
  show "aenter c = c\<lparr>http := Some ()\<rparr>"
    by (simp add: aenter_def)
  show "sent (snd (get_current_rate T w tariff)) = sent w"
    by (rule get_current_rate_sends_nothing)
qed (blast dest: get_token_keeps graphql_frame graphql_asks_the_service ensure_account_keeps
      get_account_keeps get_consumption_keeps get_daily_usage_keeps get_consumption_uk_keeps
      get_gas_consumption_keeps get_gas_tariff_keeps get_tariff_keeps
      get_daily_gas_usage_keeps get_dispatches_keeps get_dispatch_status_keeps
      get_completed_dispatches_keeps get_saving_sessions_keeps discover_meter_device_keeps
      get_live_power_keeps get_smart_devices_keeps)+

text \<open>
  Claim C7 as it is written fails: \<^verbatim>\<open>get_account\<close>, called on the Japan client of the
  docstring, leaves in the client the token and the account number that the service
  sent, and \<^verbatim>\<open>_ensure_account\<close> then answers from the client without a request.
\<close>

lemma get_account_discovery:
  "get_account japan_client (demo_world discovery_body TransportError) =
     (Inr \<lparr>a_number = JStr ''A-6CBDDE7D'', a_balance = JNum 1234, a_name = JStr '''',
           a_status = JStr ''ACTIVE'', a_address = JStr ''''\<rparr>,
      client1\<lparr>account := JStr ''A-6CBDDE7D''\<rparr>,
      (world1 discovery_body TransportError)\<lparr>reads := 2,
        sent := sent (world1 discovery_body TransportError) @
          [graphql_request client1 (JStr ''tok1'') accountViewer_query JNull,
           graphql_request client1 (JStr ''tok1'') GetAccount_query
             (JObj [(''account'', JStr ''A-6CBDDE7D'')])]\<rparr>)"
  by (simp add: get_account_def ensure_account_def graphql_def graphql_request_def py_or_def
        first_account_def account_record_def fixtures token_defs discovery_body_def)

theorem client_caches_token_and_account:
  "token japan_client = JNull \<and> account japan_client = JNull \<and>
   token (fst (snd (get_account japan_client (demo_world discovery_body TransportError)))) =
     JStr ''tok1'' \<and>
   token_expires (fst (snd (get_account japan_client
     (demo_world discovery_body TransportError)))) = Some 3300000000 \<and>
   account (fst (snd (get_account japan_client (demo_world discovery_body TransportError)))) =
     JStr ''A-6CBDDE7D'' \<and>
   ensure_account
     (fst (snd (get_account japan_client (demo_world discovery_body TransportError))))
     (snd (snd (get_account japan_client (demo_world discovery_body TransportError)))) =
     (Inr (JStr ''A-6CBDDE7D''),
      fst (snd (get_account japan_client (demo_world discovery_body TransportError))),
      snd (snd (get_account japan_client (demo_world discovery_body TransportError))))"
  unfolding get_account_discovery
  by (simp add: ensure_account_def client1_def japan_client_def OctopusClient_def)

theorem client_keeps_token_and_account_only_witness:
  "get_account japan_client (demo_world discovery_body TransportError) =
     (Inr \<lparr>a_number = JStr ''A-6CBDDE7D'', a_balance = JNum 1234, a_name = JStr '''',
           a_status = JStr ''ACTIVE'', a_address = JStr ''''\<rparr>,
      client1\<lparr>account := JStr ''A-6CBDDE7D''\<rparr>,
      (world1 discovery_body TransportError)\<lparr>reads := 2,
        sent := sent (world1 discovery_body TransportError) @
          [graphql_request client1 (JStr ''tok1'') accountViewer_query JNull,
           graphql_request client1 (JStr ''tok1'') GetAccount_query
             (JObj [(''account'', JStr ''A-6CBDDE7D'')])]\<rparr>) \<and>
   same_settings japan_client (client1\<lparr>account := JStr ''A-6CBDDE7D''\<rparr>) \<and>
   \<not> truthy (account japan_client) \<and>
   get_token japan_client (demo_world JNull TransportError) =
     (Inr (JStr ''tok1''), client1, world1 JNull TransportError) \<and>
   same_settings japan_client client1 \<and> account client1 = account japan_client"
proof -
  note t = client_keeps_token_and_account_only
  from t [THEN conjunct2, THEN conjunct2, THEN conjunct2, THEN conjunct2, THEN conjunct1,
      rule_format, OF get_account_discovery]
  have a: "same_settings japan_client (client1\<lparr>account := JStr ''A-6CBDDE7D''\<rparr>)"
    by simp
  from t [THEN conjunct1, rule_format, OF get_token_japan_client]
  have b: "same_settings japan_client client1 \<and> account client1 = account japan_client"
    by simp
  have "\<not> truthy (account japan_client)"
    by (simp add: japan_client_def OctopusClient_def)
  with a b get_account_discovery get_token_japan_client show ?thesis
    by simp
qed

end
